theory Spec2Isabelle
  imports Complex_Main "HOL-Library.Word" "HOL-Library.AList"
begin

unbundle bit_operations_syntax

section \<open>The Neuroshare glue module \<^verbatim>\<open>capi/nspy_glue.c\<close>\<close>

text \<open>
  The module is a CPython 2 extension written in C. It loads a vendor library with
  \<^verbatim>\<open>dlopen\<close>, keeps the resolved entry points in a heap-allocated \<^verbatim>\<open>NsLibrary\<close> struct and
  calls them on behalf of Python callers. The embedding below follows the C text function by
  function, with these conventions.

  \<^item> \<^verbatim>\<open>uint8\<close>, \<^verbatim>\<open>uint16\<close>, \<^verbatim>\<open>uint32\<close> are words; \<^verbatim>\<open>size_t\<close> values are natural numbers;
    \<^verbatim>\<open>long\<close> is 64 bits wide (LP64), so a \<^verbatim>\<open>uint32\<close> passed to \<^verbatim>\<open>PyInt_FromLong\<close> keeps its
    unsigned value.
  \<^item> A \<^verbatim>\<open>double\<close> is the rational number it denotes (infinities and NaN are left out).
  \<^item> The target is little-endian.
  \<^item> Python objects are values of the datatype \<open>pyobj\<close>; reference counts are not modelled,
    except that the three kinds of memory block the module allocates itself (the
    \<^verbatim>\<open>NsLibrary\<close> struct, the event scratch buffer, the numpy array) live in an explicit heap.
    Allocation is assumed to succeed.
  \<^item> A call ends in \<open>Return v\<close>, in \<open>Raise e\<close> (the C function returns \<^verbatim>\<open>NULL\<close> with the
    Python exception \<open>e\<close> set) or in \<open>Undefined\<close> (the C text has undefined behaviour: a
    read through a dangling or foreign pointer, a call through a null function pointer, a
    read beyond the initialised part of a buffer, an out-of-range conversion).
  \<^item> The vendor library is a state machine over a state type \<open>'s\<close>: each entry point maps
    its input arguments and the state to its status, its output arguments and the next state.
  \<^item> The headers \<^verbatim>\<open>nsAPItypes.h\<close> and \<^verbatim>\<open>nsAPIdllimp.h\<close> are not part of the sources. The
    numeric constants they define are parameters of the model (record \<open>ns_API\<close>); of the
    structs only the fields the module reads are kept.
\<close>

subsection \<open>Machine types and byte buffers\<close>

type_synonym uint8 = "8 word"
type_synonym uint16 = "16 word"
type_synonym uint32 = "32 word"
type_synonym double = rat

text \<open>
  A buffer is the list of its initialised bytes, lowest address first. A typed read through
  a cast pointer needs as many bytes as the type is wide; on the little-endian target the
  byte at the lowest address is the least significant one.
\<close>

definition load_uint8 :: "uint8 list \<Rightarrow> uint8 option" where
  "load_uint8 data = (case data of b0 # _ \<Rightarrow> Some b0 | _ \<Rightarrow> None)"

definition load_uint16 :: "uint8 list \<Rightarrow> uint16 option" where
  "load_uint16 data = (case data of b0 # b1 # _ \<Rightarrow> Some (word_cat b1 b0) | _ \<Rightarrow> None)"

definition load_uint32 :: "uint8 list \<Rightarrow> uint32 option" where
  "load_uint32 data = (case data of
       b0 # b1 # b2 # b3 # _ \<Rightarrow>
         Some (word_cat (word_cat b3 b2 :: uint16) (word_cat b1 b0 :: uint16))
     | _ \<Rightarrow> None)"

text \<open>
  The unsigned integer that a sequence of bytes denotes in little-endian order. This is the
  yardstick of the statements about the decoders, not part of the C text.
\<close>

fun le_value :: "uint8 list \<Rightarrow> nat" where
  "le_value [] = 0"
| "le_value (b # bs) = unat b + 256 * le_value bs"

subsection \<open>The numeric decoders\<close>

text \<open>
  \<^verbatim>\<open>uint8_from_data\<close>, \<^verbatim>\<open>uint16_from_data\<close>, \<^verbatim>\<open>uint32_from_data\<close>. The local \<^verbatim>\<open>ret\<close> has the
  type the C text declares for it: \<^verbatim>\<open>uint8\<close>, \<^verbatim>\<open>uint16\<close> and, in \<^verbatim>\<open>uint32_from_data\<close> too,
  \<^verbatim>\<open>uint16\<close>. Every assignment to \<^verbatim>\<open>ret\<close> and the final \<^verbatim>\<open>return ret\<close> convert with \<open>ucast\<close>.
  The result is \<open>None\<close> where the read goes beyond the buffer.
\<close>

definition uint8_from_data :: "uint8 list \<Rightarrow> nat \<Rightarrow> uint8 option" where
  "uint8_from_data data data_len =
     (if data_len = 1 then
        map_option (\<lambda>u8. (u8 :: uint8)) (load_uint8 data)
      else if data_len = 2 then
        load_uint8 data
      else if data_len = 4 then
        map_option (\<lambda>u32. (ucast u32 :: uint8)) (load_uint32 data)
      else Some 0)"

definition uint16_from_data :: "uint8 list \<Rightarrow> nat \<Rightarrow> uint16 option" where
  "uint16_from_data data data_len =
     (if data_len = 1 then
        map_option (\<lambda>u8. (ucast u8 :: uint16)) (load_uint8 data)
      else if data_len = 2 then
        load_uint16 data
      else if data_len = 4 then
        map_option (\<lambda>u32. (ucast u32 :: uint16)) (load_uint32 data)
      else Some 0)"

definition uint32_from_data :: "uint8 list \<Rightarrow> nat \<Rightarrow> uint32 option" where
  "uint32_from_data data data_len =
     map_option (\<lambda>ret. (ucast (ret :: uint16) :: uint32))
       (if data_len = 1 then
          map_option (\<lambda>u8. (ucast (ucast u8 :: uint32) :: uint16)) (load_uint8 data)
        else if data_len = 2 then
          map_option (\<lambda>u16. (ucast (ucast u16 :: uint32) :: uint16)) (load_uint16 data)
        else if data_len = 4 then
          map_option (\<lambda>u32. (ucast u32 :: uint16)) (load_uint32 data)
        else Some 0)"

subsection \<open>Python values and the outcome of a call\<close>

text \<open>
  A Python 2 \<^verbatim>\<open>str\<close> is a byte string; \<open>PyCObject\<close> wraps a C pointer (an address of the
  heap below); \<open>PyArray a dims xs\<close> is the numpy array whose data block lives at address
  \<open>a\<close>, with shape \<open>dims\<close> and elements \<open>xs\<close>, an element that was never written being
  \<open>None\<close>. A dict is an association list updated in place by key.
\<close>

datatype pyobj =
    PyNone
  | PyInt int
  | PyFloat double
  | PyString string
  | PyCObject nat
  | PyList "pyobj list"
  | PyTuple "pyobj list"
  | PyDict "(string \<times> pyobj) list"
  | PyArray nat "nat list" "double option list"

datatype pyexc =
    PgError string
  | PyExc_StandardError string
  | PyExc_TypeError string
  | PyArg_ParseTuple_error

datatype 'a outcome = Return 'a | Raise pyexc | Undefined

definition PyCObject_Check :: "pyobj \<Rightarrow> bool" where
  "PyCObject_Check ob = (case ob of PyCObject _ \<Rightarrow> True | _ \<Rightarrow> False)"

definition PyInt_Check :: "pyobj \<Rightarrow> bool" where
  "PyInt_Check ob = (case ob of PyInt _ \<Rightarrow> True | _ \<Rightarrow> False)"

text \<open>\<^verbatim>\<open>(uint32) PyInt_AsUnsignedLongMask (ob)\<close>: the integer reduced modulo \<open>2 ^ 32\<close>.\<close>

definition PyInt_AsUnsignedLongMask :: "pyobj \<Rightarrow> uint32" where
  "PyInt_AsUnsignedLongMask ob = (case ob of PyInt n \<Rightarrow> word_of_int n | _ \<Rightarrow> 0)"

definition PyInt_FromLong :: "'a::len word \<Rightarrow> pyobj" where
  "PyInt_FromLong x = PyInt (uint x)"


definition dict_set_item_eat_ref :: "(string \<times> pyobj) list \<Rightarrow> string \<Rightarrow> pyobj \<Rightarrow> (string \<times> pyobj) list" where
  "dict_set_item_eat_ref dict string item = AList.update string item dict"

text \<open>\<^verbatim>\<open>PyString_FromStringAndSize (buffer, n)\<close> reads \<open>n\<close> bytes of the buffer.\<close>

definition PyString_FromStringAndSize :: "uint8 list \<Rightarrow> nat \<Rightarrow> pyobj option" where
  "PyString_FromStringAndSize buffer n =
     (if n \<le> length buffer then Some (PyString (map (\<lambda>b. char_of (unat b)) (take n buffer)))
      else None)"

subsection \<open>The vendor API\<close>

text \<open>The constants of \<^verbatim>\<open>nsAPItypes.h\<close> the module uses.\<close>

record ns_API =
  ns_OK :: int
  ns_ENTITY_EVENT :: uint32
  ns_ENTITY_ANALOG :: uint32
  ns_ENTITY_SEGMENT :: uint32
  ns_ENTITY_NEURALEVENT :: uint32
  ns_EVENT_TEXT :: uint32
  ns_EVENT_CSV :: uint32
  ns_EVENT_BYTE :: uint32
  ns_EVENT_WORD :: uint32
  ns_EVENT_DWORD :: uint32

text \<open>The labels of a C \<^verbatim>\<open>switch\<close> are pairwise distinct.\<close>

definition ns_API_ok :: "ns_API \<Rightarrow> bool" where
  "ns_API_ok K \<longleftrightarrow>
     distinct [ns_ENTITY_EVENT K, ns_ENTITY_ANALOG K, ns_ENTITY_SEGMENT K, ns_ENTITY_NEURALEVENT K] \<and>
     distinct [ns_EVENT_TEXT K, ns_EVENT_CSV K, ns_EVENT_BYTE K, ns_EVENT_WORD K, ns_EVENT_DWORD K]"

record ns_ENTITYINFO =
  szEntityLabel :: string
  dwEntityType :: uint32
  dwItemCount :: uint32

record ns_EVENTINFO =
  dwEventType :: uint32
  dwMinDataLength :: uint32
  dwMaxDataLength :: uint32
  szCSVDesc :: string

record ns_ANALOGINFO =
  dSampleRate :: double
  dMinVal :: double
  dMaxVal :: double
  szUnits :: string
  dResolution :: double
  dLocationX :: double
  dLocationY :: double
  dLocationZ :: double
  dLocationUser :: double
  dHighFreqCorner :: double
  dwHighFreqOrder :: uint32
  szHighFilterType :: string
  dLowFreqCorner :: double
  dwLowFreqOrder :: uint32
  szLowFilterType :: string
  szProbeInfo :: string

record ns_SEGMENTINFO =
  dwSourceCount :: uint32
  dwMinSampleCount :: uint32
  dwMaxSampleCount :: uint32
  dSampleRate :: double
  szUnits :: string

record ns_SEGSOURCEINFO =
  dMinVal :: double
  dMaxVal :: double
  dSubSampleShift :: double
  dResolution :: double
  dLocationX :: double
  dLocationY :: double
  dLocationZ :: double
  dLocationUser :: double
  dHighFreqCorner :: double
  dwHighFreqOrder :: uint32
  szHighFilterType :: string
  dLowFreqCorner :: double
  dwLowFreqOrder :: uint32
  szLowFilterType :: string
  szProbeInfo :: string

record ns_NEURALINFO =
  dwSourceEntityID :: uint32
  dwSourceUnitID :: uint32
  szProbeInfo :: string

text \<open>
  A resolved symbol is a function pointer. The module casts whatever \<^verbatim>\<open>dlsym\<close> returns to the
  type of the slot, so a slot can hold a function of another type, or none. Each constructor
  carries an entry point of one of the types of \<^verbatim>\<open>nsAPIdllimp.h\<close>, read off the call sites:
  the input arguments in the order of the call, then the state; the result is the status
  with the output arguments, and the next state. \<open>NS_OTHER\<close> stands for the entry points that
  the functions modelled here never call (library info, file open, close and info, index and
  time conversion).
\<close>

datatype 's fnptr =
    NS_GETENTITYINFO "uint32 \<Rightarrow> uint32 \<Rightarrow> 's \<Rightarrow> (int \<times> ns_ENTITYINFO) \<times> 's"
  | NS_GETEVENTINFO "uint32 \<Rightarrow> uint32 \<Rightarrow> 's \<Rightarrow> (int \<times> ns_EVENTINFO) \<times> 's"
  | NS_GETEVENTDATA "uint32 \<Rightarrow> uint32 \<Rightarrow> uint32 \<Rightarrow> uint32 \<Rightarrow> 's \<Rightarrow> (int \<times> double \<times> uint8 list \<times> uint32) \<times> 's"
  | NS_GETANALOGINFO "uint32 \<Rightarrow> uint32 \<Rightarrow> 's \<Rightarrow> (int \<times> ns_ANALOGINFO) \<times> 's"
  | NS_GETANALOGDATA "uint32 \<Rightarrow> uint32 \<Rightarrow> uint32 \<Rightarrow> uint32 \<Rightarrow> 's \<Rightarrow> (int \<times> uint32 \<times> double list) \<times> 's"
  | NS_GETSEGMENTINFO "uint32 \<Rightarrow> uint32 \<Rightarrow> 's \<Rightarrow> (int \<times> ns_SEGMENTINFO) \<times> 's"
  | NS_GETSEGMENTSOURCEINFO "uint32 \<Rightarrow> uint32 \<Rightarrow> uint32 \<Rightarrow> 's \<Rightarrow> (int \<times> ns_SEGSOURCEINFO) \<times> 's"
  | NS_GETSEGMENTDATA "uint32 \<Rightarrow> uint32 \<Rightarrow> uint32 \<Rightarrow> uint32 \<Rightarrow> 's \<Rightarrow> (int \<times> double \<times> double list \<times> uint32 \<times> uint32) \<times> 's"
  | NS_GETNEURALINFO "uint32 \<Rightarrow> uint32 \<Rightarrow> 's \<Rightarrow> (int \<times> ns_NEURALINFO) \<times> 's"
  | NS_GETNEURALDATA "uint32 \<Rightarrow> uint32 \<Rightarrow> uint32 \<Rightarrow> uint32 \<Rightarrow> 's \<Rightarrow> (int \<times> double list) \<times> 's"
  | NS_GETLASTERRORMSG "nat \<Rightarrow> 's \<Rightarrow> string \<times> 's"
  | NS_OTHER nat

record 's NsLibrary =
  dl_handle :: nat
  GetLibraryInfo :: "'s fnptr option"
  OpenFile :: "'s fnptr option"
  CloseFile :: "'s fnptr option"
  GetFileInfo :: "'s fnptr option"
  GetEntityInfo :: "'s fnptr option"
  GetEventInfo :: "'s fnptr option"
  GetEventData :: "'s fnptr option"
  GetAnalogInfo :: "'s fnptr option"
  GetAnalogData :: "'s fnptr option"
  GetSegmentInfo :: "'s fnptr option"
  GetSegmentSourceInfo :: "'s fnptr option"
  GetSegmentData :: "'s fnptr option"
  GetNeuralInfo :: "'s fnptr option"
  GetNeuralData :: "'s fnptr option"
  GetIndexByTime :: "'s fnptr option"
  GetTimeByIndex :: "'s fnptr option"
  GetLastErrorMsg :: "'s fnptr option"

subsection \<open>The heap and the dynamic loader\<close>

text \<open>
  The heap lists the live blocks with their addresses. \<open>alloc\<close> places a block at an address
  above every live one (never \<open>0\<close>, the null pointer); \<open>release\<close> is \<^verbatim>\<open>free\<close>, and the
  \<^verbatim>\<open>Py_DECREF\<close> that drops the only reference to a fresh numpy array.
\<close>

datatype 's cell =
    NsLibrary_cell "'s NsLibrary"
  | malloc_cell nat
  | ndarray_cell "nat list"

definition fresh :: "(nat \<times> 'c) list \<Rightarrow> nat" where
  "fresh h = Suc (fold max (map fst h) 0)"

definition alloc :: "'c \<Rightarrow> (nat \<times> 'c) list \<Rightarrow> nat \<times> (nat \<times> 'c) list" where
  "alloc c h = (fresh h, (fresh h, c) # h)"

definition release :: "nat \<Rightarrow> (nat \<times> 'c) list \<Rightarrow> (nat \<times> 'c) list" where
  "release a h = filter (\<lambda>kc. fst kc \<noteq> a) h"

record 's world =
  native :: 's
  heap :: "(nat \<times> 's cell) list"

text \<open>
  \<^verbatim>\<open>lib = PyCObject_AsVoidPtr (cobj)\<close> followed by a read of \<^verbatim>\<open>lib->...\<close>: defined only while
  the pointer is the address of a live \<^verbatim>\<open>NsLibrary\<close> struct.
\<close>

definition PyCObject_AsVoidPtr :: "pyobj \<Rightarrow> nat" where
  "PyCObject_AsVoidPtr cobj = (case cobj of PyCObject a \<Rightarrow> a | _ \<Rightarrow> 0)"

definition NsLibrary_at :: "'s world \<Rightarrow> nat \<Rightarrow> 's NsLibrary option" where
  "NsLibrary_at w lib =
     (case map_of (heap w) lib of Some (NsLibrary_cell l) \<Rightarrow> Some l | _ \<Rightarrow> None)"

text \<open>
  The dynamic loader: \<^verbatim>\<open>dlopen\<close> yields a handle or the null pointer (\<open>None\<close>), \<^verbatim>\<open>dlsym\<close> a
  function pointer or the null pointer, \<^verbatim>\<open>dlclose\<close> a status, \<^verbatim>\<open>dlerror\<close> the diagnostic text.
\<close>

record 's loader =
  dlopen :: "string \<Rightarrow> nat option"
  dlsym :: "nat \<Rightarrow> string \<Rightarrow> 's fnptr option"
  dlclose :: "nat \<Rightarrow> int"
  dlerror :: string

subsection \<open>Status translation\<close>

text \<open>
  \<^verbatim>\<open>check_result_is_error\<close>: \<open>Some (None, s)\<close> is the return value 0; \<open>Some (Some e, s')\<close> is the
  return value 1 with the exception \<open>e\<close> set from the text that \<^verbatim>\<open>lib->GetLastErrorMsg\<close> wrote
  into the 1024-byte buffer; \<open>None\<close> is the call through a null or mistyped pointer.
\<close>

definition check_result_is_error :: "ns_API \<Rightarrow> int \<Rightarrow> 's NsLibrary \<Rightarrow> 's \<Rightarrow> (pyexc option \<times> 's) option" where
  "check_result_is_error K res lib s =
     (if res = ns_OK K then Some (None, s)
      else (case GetLastErrorMsg lib of
              Some (NS_GETLASTERRORMSG f) \<Rightarrow>
                (case f 1024 s of (buf, s') \<Rightarrow> Some (Some (PgError buf), s'))
            | _ \<Rightarrow> None))"

subsection \<open>Opening and closing a library\<close>

definition library_open :: "'s loader \<Rightarrow> 's world \<Rightarrow> pyobj list \<Rightarrow> pyobj outcome \<times> 's world" where
  "library_open L w args =
     (case args of
        [PyString filename] \<Rightarrow>
          (case dlopen L filename of
             None \<Rightarrow> (Raise (PgError (''Could not load library: '' @ dlerror L)), w)
           | Some dlh \<Rightarrow>
               (let lib = \<lparr> dl_handle = dlh,
                            GetLibraryInfo = dlsym L dlh ''ns_GetLibraryInfo'',
                            OpenFile = dlsym L dlh ''ns_OpenFile'',
                            CloseFile = dlsym L dlh ''ns_CloseFile'',
                            GetFileInfo = dlsym L dlh ''ns_GetFileInfo'',
                            GetEntityInfo = dlsym L dlh ''ns_GetEntityInfo'',
                            GetEventInfo = dlsym L dlh ''ns_GetEventInfo'',
                            GetEventData = dlsym L dlh ''ns_GetEventData'',
                            GetAnalogInfo = dlsym L dlh ''ns_GetAnalogInfo'',
                            GetAnalogData = dlsym L dlh ''ns_GetAnalogData'',
                            GetSegmentInfo = dlsym L dlh ''ns_GetSegmentInfo'',
                            GetSegmentSourceInfo = dlsym L dlh ''ns_GetSegmentSourceInfo'',
                            GetSegmentData = dlsym L dlh ''ns_GetSegmentData'',
                            GetNeuralInfo = dlsym L dlh ''ns_GetNeuralInfo'',
                            GetNeuralData = dlsym L dlh ''ns_GetNeuralData'',
                            GetIndexByTime = dlsym L dlh ''ns_GetIndexByTime'',
                            GetTimeByIndex = dlsym L dlh ''ns_GetTimeByIndex'',
                            GetLastErrorMsg = dlsym L dlh ''ns_GetLastErrorMsg'' \<rparr>
                in case alloc (NsLibrary_cell lib) (heap w) of
                     (a, h) \<Rightarrow> (Return (PyCObject a), w\<lparr>heap := h\<rparr>)))
      | _ \<Rightarrow> (Raise PyArg_ParseTuple_error, w))"

definition library_close :: "'s loader \<Rightarrow> 's world \<Rightarrow> pyobj list \<Rightarrow> pyobj outcome \<times> 's world" where
  "library_close L w args =
     (case args of
        [cobj] \<Rightarrow>
          if \<not> PyCObject_Check cobj then (Raise (PyExc_TypeError ''Expected NsLibrary type''), w)
          else
            (let lib = PyCObject_AsVoidPtr cobj
             in case NsLibrary_at w lib of
                  None \<Rightarrow> (Undefined, w)
                | Some l \<Rightarrow>
                    (let res = dlclose L (dl_handle l)
                     in if res \<noteq> 0
                        then (Raise (PgError (''Could not load library: '' @ dlerror L)), w)
                        else (Return PyNone, w\<lparr>heap := release lib (heap w)\<rparr>)))
      | _ \<Rightarrow> (Raise (PyExc_StandardError ''Could not parse arguments''), w))"

subsection \<open>Entity information\<close>

text \<open>
  Each \<^verbatim>\<open>get_and_add_...\<close> helper returns its status with the dict as it leaves it, and the next
  state of the vendor library; \<open>None\<close> is the call through a null or mistyped pointer.
\<close>

definition get_and_add_event_info ::
  "ns_API \<Rightarrow> 's NsLibrary \<Rightarrow> uint32 \<Rightarrow> uint32 \<Rightarrow> (string \<times> pyobj) list \<Rightarrow> 's
     \<Rightarrow> ((int \<times> (string \<times> pyobj) list) \<times> 's) option" where
  "get_and_add_event_info K lib file_id entity_id dict s =
     (case GetEventInfo lib of
        Some (NS_GETEVENTINFO f) \<Rightarrow>
          (case f file_id entity_id s of
             ((res, info), s') \<Rightarrow>
               if res \<noteq> ns_OK K then Some ((res, dict), s')
               else
                 (let d1 = dict_set_item_eat_ref dict ''EventType'' (PyInt_FromLong (dwEventType info));
                      d2 = dict_set_item_eat_ref d1 ''MinDataLength'' (PyInt_FromLong (dwMinDataLength info));
                      d3 = dict_set_item_eat_ref d2 ''MaxDataLength'' (PyInt_FromLong (dwMaxDataLength info));
                      d4 = dict_set_item_eat_ref d3 ''CSVDesc'' (PyString (szCSVDesc info))
                  in Some ((ns_OK K, d4), s')))
      | _ \<Rightarrow> None)"

definition analog_info_items :: "ns_ANALOGINFO \<Rightarrow> (string \<times> pyobj) list" where
  "analog_info_items info =
     [(''SampleRate'', PyFloat (ns_ANALOGINFO.dSampleRate info)),
      (''MinVal'', PyFloat (ns_ANALOGINFO.dMinVal info)),
      (''MaxVal'', PyFloat (ns_ANALOGINFO.dMaxVal info)),
      (''zUnits'', PyString (ns_ANALOGINFO.szUnits info)),
      (''Resolution'', PyFloat (ns_ANALOGINFO.dResolution info)),
      (''LocationX'', PyFloat (ns_ANALOGINFO.dLocationX info)),
      (''LocationY'', PyFloat (ns_ANALOGINFO.dLocationY info)),
      (''LocationZ'', PyFloat (ns_ANALOGINFO.dLocationZ info)),
      (''LocationUser'', PyFloat (ns_ANALOGINFO.dLocationUser info)),
      (''HighFreqCorner'', PyFloat (ns_ANALOGINFO.dHighFreqCorner info)),
      (''HighFreqOrder'', PyInt_FromLong (ns_ANALOGINFO.dwHighFreqOrder info)),
      (''HighFilterType'', PyString (ns_ANALOGINFO.szHighFilterType info)),
      (''LowFreqCorner'', PyFloat (ns_ANALOGINFO.dLowFreqCorner info)),
      (''LowFreqOrder'', PyInt_FromLong (ns_ANALOGINFO.dwLowFreqOrder info)),
      (''LowFilterType'', PyString (ns_ANALOGINFO.szLowFilterType info)),
      (''ProbeInfo'', PyString (ns_ANALOGINFO.szProbeInfo info))]"

definition get_and_add_analog_info ::
  "ns_API \<Rightarrow> 's NsLibrary \<Rightarrow> uint32 \<Rightarrow> uint32 \<Rightarrow> (string \<times> pyobj) list \<Rightarrow> 's
     \<Rightarrow> ((int \<times> (string \<times> pyobj) list) \<times> 's) option" where
  "get_and_add_analog_info K lib file_id entity_id dict s =
     (case GetAnalogInfo lib of
        Some (NS_GETANALOGINFO f) \<Rightarrow>
          (case f file_id entity_id s of
             ((res, info), s') \<Rightarrow>
               if res \<noteq> ns_OK K then Some ((res, dict), s')
               else Some ((ns_OK K,
                           fold (\<lambda>(string, item) d. dict_set_item_eat_ref d string item)
                             (analog_info_items info) dict), s'))
      | _ \<Rightarrow> None)"

definition segment_source_info_items :: "ns_SEGSOURCEINFO \<Rightarrow> (string \<times> pyobj) list" where
  "segment_source_info_items info =
     [(''MinVal'', PyFloat (dMinVal info)),
      (''MaxVal'', PyFloat (dMaxVal info)),
      (''SubSampleShift'', PyFloat (dSubSampleShift info)),
      (''Resolution'', PyFloat (dResolution info)),
      (''LocationX'', PyFloat (dLocationX info)),
      (''LocationY'', PyFloat (dLocationY info)),
      (''LocationZ'', PyFloat (dLocationZ info)),
      (''LocationUser'', PyFloat (dLocationUser info)),
      (''HighFreqCorner'', PyFloat (dHighFreqCorner info)),
      (''HighFreqOrder'', PyInt_FromLong (dwHighFreqOrder info)),
      (''HighFilterType'', PyString (szHighFilterType info)),
      (''LowFreqCorner'', PyFloat (dLowFreqCorner info)),
      (''LowFreqOrder'', PyInt_FromLong (dwLowFreqOrder info)),
      (''LowFilterType'', PyString (szLowFilterType info)),
      (''ProbeInfo'', PyString (ns_SEGSOURCEINFO.szProbeInfo info))]"

text \<open>
  \<^verbatim>\<open>get_and_add_segment_source_info\<close> creates the dict and stores it in the list before the
  vendor call; the list then shares the dict, so the items set after a successful call show
  through the list, and after a failed call the list holds the empty dict. An index outside
  the list makes \<^verbatim>\<open>PyList_SetItem\<close> drop the dict, whose later use is undefined.
\<close>

definition get_and_add_segment_source_info ::
  "ns_API \<Rightarrow> 's NsLibrary \<Rightarrow> uint32 \<Rightarrow> uint32 \<Rightarrow> uint32 \<Rightarrow> pyobj list \<Rightarrow> 's
     \<Rightarrow> ((int \<times> pyobj list) \<times> 's) option" where
  "get_and_add_segment_source_info K lib file_id entity_id source_id list s =
     (let list1 = list[unat source_id := PyDict []]
      in case GetSegmentSourceInfo lib of
           Some (NS_GETSEGMENTSOURCEINFO f) \<Rightarrow>
             (case f file_id entity_id source_id s of
                ((res, info), s') \<Rightarrow>
                  if res \<noteq> ns_OK K then Some ((res, list1), s')
                  else if unat source_id < length list then
                    Some ((ns_OK K,
                           list[unat source_id :=
                                  PyDict (fold (\<lambda>(string, item) d. dict_set_item_eat_ref d string item)
                                            (segment_source_info_items info) [])]), s')
                  else None)
         | _ \<Rightarrow> None)"

text \<open>
  The loop \<^verbatim>\<open>for (i = 0; i < info.dwSourceCount; i++)\<close> of \<^verbatim>\<open>get_and_add_segment_info\<close>, as a
  function of the counter \<open>i\<close>. The status that the body returns is not used.
\<close>

function segment_source_loop ::
  "ns_API \<Rightarrow> 's NsLibrary \<Rightarrow> uint32 \<Rightarrow> uint32 \<Rightarrow> nat \<Rightarrow> nat \<Rightarrow> pyobj list \<Rightarrow> 's
     \<Rightarrow> (pyobj list \<times> 's) option" where
  "segment_source_loop K lib file_id entity_id n i list s =
     (if i < n then
        (case get_and_add_segment_source_info K lib file_id entity_id (word_of_nat i) list s of
           None \<Rightarrow> None
         | Some ((res, list'), s') \<Rightarrow> segment_source_loop K lib file_id entity_id n (Suc i) list' s')
      else Some (list, s))"
  by pat_completeness auto

termination
  by (relation "measure (\<lambda>(K, lib, file_id, entity_id, n, i, list, s). n - i)") auto

declare segment_source_loop.simps [simp del]

definition get_and_add_segment_info ::
  "ns_API \<Rightarrow> 's NsLibrary \<Rightarrow> uint32 \<Rightarrow> uint32 \<Rightarrow> (string \<times> pyobj) list \<Rightarrow> 's
     \<Rightarrow> ((int \<times> (string \<times> pyobj) list) \<times> 's) option" where
  "get_and_add_segment_info K lib file_id entity_id dict s =
     (case GetSegmentInfo lib of
        Some (NS_GETSEGMENTINFO f) \<Rightarrow>
          (case f file_id entity_id s of
             ((res, info), s1) \<Rightarrow>
               if res \<noteq> ns_OK K then Some ((res, dict), s1)
               else
                 (let d1 = dict_set_item_eat_ref dict ''SourceCount'' (PyInt_FromLong (dwSourceCount info));
                      d2 = dict_set_item_eat_ref d1 ''MinSampleCount'' (PyInt_FromLong (dwMinSampleCount info));
                      d3 = dict_set_item_eat_ref d2 ''MaxSampleCount'' (PyInt_FromLong (dwMaxSampleCount info));
                      d4 = dict_set_item_eat_ref d3 ''SampleRate'' (PyFloat (ns_SEGMENTINFO.dSampleRate info));
                      d5 = dict_set_item_eat_ref d4 ''Units'' (PyString (ns_SEGMENTINFO.szUnits info));
                      list = replicate (unat (dwSourceCount info)) PyNone
                  in case segment_source_loop K lib file_id entity_id
                            (unat (dwSourceCount info)) 0 list s1 of
                       None \<Rightarrow> None
                     | Some (list', s2) \<Rightarrow>
                         Some ((res, dict_set_item_eat_ref d5 ''SourceInfos'' (PyList list')), s2)))
      | _ \<Rightarrow> None)"

definition get_and_add_neural_info ::
  "ns_API \<Rightarrow> 's NsLibrary \<Rightarrow> uint32 \<Rightarrow> uint32 \<Rightarrow> (string \<times> pyobj) list \<Rightarrow> 's
     \<Rightarrow> ((int \<times> (string \<times> pyobj) list) \<times> 's) option" where
  "get_and_add_neural_info K lib file_id entity_id dict s =
     (case GetNeuralInfo lib of
        Some (NS_GETNEURALINFO f) \<Rightarrow>
          (case f file_id entity_id s of
             ((res, info), s') \<Rightarrow>
               if res \<noteq> ns_OK K then Some ((res, dict), s')
               else
                 (let d1 = dict_set_item_eat_ref dict ''SourceEntityID'' (PyInt_FromLong (dwSourceEntityID info));
                      d2 = dict_set_item_eat_ref d1 ''SourceUnitID'' (PyInt_FromLong (dwSourceUnitID info));
                      d3 = dict_set_item_eat_ref d2 ''ProbeInfo'' (PyString (szProbeInfo info))
                  in Some ((ns_OK K, d3), s')))
      | _ \<Rightarrow> None)"

text \<open>
  \<^verbatim>\<open>do_get_entity_info\<close>. The \<^verbatim>\<open>switch\<close> has no default: for any other entity type \<^verbatim>\<open>res\<close>
  keeps the status of \<^verbatim>\<open>GetEntityInfo\<close>.
\<close>

definition entity_info_switch ::
  "ns_API \<Rightarrow> 's NsLibrary \<Rightarrow> uint32 \<Rightarrow> uint32 \<Rightarrow> uint32 \<Rightarrow> int \<Rightarrow> (string \<times> pyobj) list \<Rightarrow> 's
     \<Rightarrow> ((int \<times> (string \<times> pyobj) list) \<times> 's) option" where
  "entity_info_switch K lib file_id entity_id entity_type res dict s =
     (if entity_type = ns_ENTITY_EVENT K then get_and_add_event_info K lib file_id entity_id dict s
      else if entity_type = ns_ENTITY_ANALOG K then get_and_add_analog_info K lib file_id entity_id dict s
      else if entity_type = ns_ENTITY_SEGMENT K then get_and_add_segment_info K lib file_id entity_id dict s
      else if entity_type = ns_ENTITY_NEURALEVENT K then get_and_add_neural_info K lib file_id entity_id dict s
      else Some ((res, dict), s))"

definition do_get_entity_info :: "ns_API \<Rightarrow> 's world \<Rightarrow> pyobj list \<Rightarrow> pyobj outcome \<times> 's world" where
  "do_get_entity_info K w args =
     (case args of
        [cobj, iobj, id_obj] \<Rightarrow>
          if \<not> PyCObject_Check cobj \<or> \<not> PyInt_Check iobj \<or> \<not> PyInt_Check id_obj
          then (Raise (PyExc_TypeError ''Wrong argument type(s)''), w)
          else
            (let lib = PyCObject_AsVoidPtr cobj;
                 file_id = PyInt_AsUnsignedLongMask iobj;
                 entity_id = PyInt_AsUnsignedLongMask id_obj
             in case NsLibrary_at w lib of
                  None \<Rightarrow> (Undefined, w)
                | Some l \<Rightarrow>
                    (case GetEntityInfo l of
                       Some (NS_GETENTITYINFO f) \<Rightarrow>
                         (case f file_id entity_id (native w) of
                            ((res, info), s1) \<Rightarrow>
                              (case check_result_is_error K res l s1 of
                                 None \<Rightarrow> (Undefined, w)
                               | Some (Some e, s2) \<Rightarrow> (Raise e, w\<lparr>native := s2\<rparr>)
                               | Some (None, s2) \<Rightarrow>
                                   (let d1 = dict_set_item_eat_ref [] ''EntityLabel'' (PyString (szEntityLabel info));
                                        d2 = dict_set_item_eat_ref d1 ''EntityType'' (PyInt_FromLong (dwEntityType info));
                                        d3 = dict_set_item_eat_ref d2 ''ItemCount'' (PyInt_FromLong (dwItemCount info))
                                    in case entity_info_switch K l file_id entity_id
                                              (dwEntityType info) res d3 s2 of
                                         None \<Rightarrow> (Undefined, w)
                                       | Some ((res', dict), s3) \<Rightarrow>
                                           (case check_result_is_error K res' l s3 of
                                              None \<Rightarrow> (Undefined, w)
                                            | Some (Some e, s4) \<Rightarrow> (Raise e, w\<lparr>native := s4\<rparr>)
                                            | Some (None, s4) \<Rightarrow>
                                                (Return (PyDict dict), w\<lparr>native := s4\<rparr>)))))
                     | _ \<Rightarrow> (Undefined, w)))
      | _ \<Rightarrow> (Raise (PyExc_StandardError ''Could not parse arguments''), w))"

subsection \<open>Data accessors\<close>

text \<open>
  The vendor call reports the bytes it wrote into the scratch buffer; the buffer then holds
  at most \<^verbatim>\<open>data_size\<close> of them. \<^verbatim>\<open>PyArray_New\<close> leaves the elements of a new array
  unwritten; the vendor call writes a prefix of them.
\<close>

definition ndarray_fill :: "nat \<Rightarrow> double list \<Rightarrow> double option list" where
  "ndarray_fill n xs = map Some (take n xs) @ replicate (n - length xs) None"

definition event_data_obj :: "ns_API \<Rightarrow> uint32 \<Rightarrow> uint8 list \<Rightarrow> uint32 \<Rightarrow> pyobj option" where
  "event_data_obj K event_type buffer data_ret_size =
     (if event_type = ns_EVENT_TEXT K \<or> event_type = ns_EVENT_CSV K then
        PyString_FromStringAndSize buffer (unat data_ret_size)
      else if event_type = ns_EVENT_BYTE K then
        map_option PyInt_FromLong (uint8_from_data buffer (unat data_ret_size))
      else if event_type = ns_EVENT_WORD K then
        map_option PyInt_FromLong (uint16_from_data buffer (unat data_ret_size))
      else if event_type = ns_EVENT_DWORD K then
        map_option PyInt_FromLong (uint32_from_data buffer (unat data_ret_size))
      else Some PyNone)"

definition do_get_event_data :: "ns_API \<Rightarrow> 's world \<Rightarrow> pyobj list \<Rightarrow> pyobj outcome \<times> 's world" where
  "do_get_event_data K w args =
     (case args of
        [cobj, iobj, id_obj, idx_obj, tp_obj, sz_obj] \<Rightarrow>
          if \<not> PyCObject_Check cobj \<or> \<not> PyInt_Check iobj \<or> \<not> PyInt_Check id_obj \<or>
             \<not> PyInt_Check idx_obj \<or> \<not> PyInt_Check tp_obj \<or> \<not> PyInt_Check sz_obj
          then (Raise (PyExc_TypeError ''Wrong argument type(s)''), w)
          else
            (let lib = PyCObject_AsVoidPtr cobj;
                 file_id = PyInt_AsUnsignedLongMask iobj;
                 entity_id = PyInt_AsUnsignedLongMask id_obj;
                 index = PyInt_AsUnsignedLongMask idx_obj;
                 event_type = PyInt_AsUnsignedLongMask tp_obj;
                 data_size = PyInt_AsUnsignedLongMask sz_obj
             in case alloc (malloc_cell (unat data_size)) (heap w) of
                  (buffer, h1) \<Rightarrow>
                    (case NsLibrary_at w lib of
                       None \<Rightarrow> (Undefined, w)
                     | Some l \<Rightarrow>
                         (case GetEventData l of
                            Some (NS_GETEVENTDATA f) \<Rightarrow>
                              (case f file_id entity_id index data_size (native w) of
                                 ((res, time_stamp, written, data_ret_size), s1) \<Rightarrow>
                                   (case check_result_is_error K res l s1 of
                                      None \<Rightarrow> (Undefined, w)
                                    | Some (Some e, s2) \<Rightarrow>
                                        (Raise e, \<lparr>native = s2, heap = release buffer h1\<rparr>)
                                    | Some (None, s2) \<Rightarrow>
                                        (case event_data_obj K event_type
                                                (take (unat data_size) written) data_ret_size of
                                           None \<Rightarrow> (Undefined, w)
                                         | Some data_obj \<Rightarrow>
                                             (Return (PyTuple [PyFloat time_stamp, data_obj]),
                                              \<lparr>native = s2, heap = release buffer h1\<rparr>))))
                          | _ \<Rightarrow> (Undefined, w))))
      | _ \<Rightarrow> (Raise (PyExc_StandardError ''Could not parse arguments''), w))"

definition do_get_analog_data :: "ns_API \<Rightarrow> 's world \<Rightarrow> pyobj list \<Rightarrow> pyobj outcome \<times> 's world" where
  "do_get_analog_data K w args =
     (case args of
        [cobj, iobj, id_obj, idx_obj, sz_obj] \<Rightarrow>
          if \<not> PyCObject_Check cobj \<or> \<not> PyInt_Check iobj \<or> \<not> PyInt_Check id_obj \<or>
             \<not> PyInt_Check idx_obj \<or> \<not> PyInt_Check sz_obj
          then (Raise (PyExc_TypeError ''Wrong argument type(s)''), w)
          else
            (let lib = PyCObject_AsVoidPtr cobj;
                 file_id = PyInt_AsUnsignedLongMask iobj;
                 entity_id = PyInt_AsUnsignedLongMask id_obj;
                 index = PyInt_AsUnsignedLongMask idx_obj;
                 count = PyInt_AsUnsignedLongMask sz_obj;
                 dims = [unat count]
             in case alloc (ndarray_cell dims) (heap w) of
                  (array, h1) \<Rightarrow>
                    (case NsLibrary_at w lib of
                       None \<Rightarrow> (Undefined, w)
                     | Some l \<Rightarrow>
                         (case GetAnalogData l of
                            Some (NS_GETANALOGDATA f) \<Rightarrow>
                              (case f file_id entity_id index count (native w) of
                                 ((res, cont_count, written), s1) \<Rightarrow>
                                   (case check_result_is_error K res l s1 of
                                      None \<Rightarrow> (Undefined, w)
                                    | Some (Some e, s2) \<Rightarrow>
                                        (Raise e, \<lparr>native = s2, heap = release array h1\<rparr>)
                                    | Some (None, s2) \<Rightarrow>
                                        (Return (PyTuple [PyArray array dims (ndarray_fill (unat count) written),
                                                          PyInt_FromLong cont_count]),
                                         \<lparr>native = s2, heap = h1\<rparr>)))
                          | _ \<Rightarrow> (Undefined, w))))
      | _ \<Rightarrow> (Raise (PyExc_StandardError ''Could not parse arguments''), w))"



subsection \<open>The order of the vendor's source-info calls\<close>

text \<open>
  The state of the vendor library in which the source-info call for source \<open>j\<close> is made,
  when the calls for the sources 0, 1, 2, ... are made in this order from the state \<open>s\<close>.
  It is defined from the vendor's entry point alone and is used to state, not to compute,
  what the segment query returns.
\<close>

fun source_call_state ::
  "(uint32 \<Rightarrow> uint32 \<Rightarrow> uint32 \<Rightarrow> 's \<Rightarrow> (int \<times> ns_SEGSOURCEINFO) \<times> 's)
     \<Rightarrow> uint32 \<Rightarrow> uint32 \<Rightarrow> nat \<Rightarrow> 's \<Rightarrow> 's" where
  "source_call_state f file_id entity_id 0 s = s"
| "source_call_state f file_id entity_id (Suc j) s =
     snd (f file_id entity_id (word_of_nat j) (source_call_state f file_id entity_id j s))"

subsection \<open>A test double for the vendor library\<close>

text \<open>
  The concrete inputs of the evaluations below: an instance of the constants, and a vendor
  library whose state is the text of its last error. It serves entity 1 (events), entity 2
  (analogue samples; it reports two contiguous samples at index 0 and five at any other
  index, however many were asked for), entity 3 (segments with two sources, the second of
  which cannot be described) and entity 4 (neural events), fails on every other entity, and
  does not export five of the seventeen symbols.
\<close>

definition test_API :: ns_API where
  "test_API =
     \<lparr> ns_OK = 0,
       ns_ENTITY_EVENT = 1, ns_ENTITY_ANALOG = 2, ns_ENTITY_SEGMENT = 3, ns_ENTITY_NEURALEVENT = 4,
       ns_EVENT_TEXT = 0, ns_EVENT_CSV = 1, ns_EVENT_BYTE = 2, ns_EVENT_WORD = 3, ns_EVENT_DWORD = 4 \<rparr>"

definition test_GetEntityInfo :: "uint32 \<Rightarrow> uint32 \<Rightarrow> string \<Rightarrow> (int \<times> ns_ENTITYINFO) \<times> string" where
  "test_GetEntityInfo file_id entity_id s =
     (if entity_id = 3
      then ((0, \<lparr> szEntityLabel = ''seg'', dwEntityType = 3, dwItemCount = 1 \<rparr>), s)
      else ((- 1, \<lparr> szEntityLabel = [], dwEntityType = 0, dwItemCount = 0 \<rparr>), ''bad entity''))"

definition test_GetSegmentInfo :: "uint32 \<Rightarrow> uint32 \<Rightarrow> string \<Rightarrow> (int \<times> ns_SEGMENTINFO) \<times> string" where
  "test_GetSegmentInfo file_id entity_id s =
     ((0, \<lparr> dwSourceCount = 2, dwMinSampleCount = 1, dwMaxSampleCount = 4,
             dSampleRate = 1000, szUnits = ''mV'' \<rparr>), s)"

definition test_source :: ns_SEGSOURCEINFO where
  "test_source =
     \<lparr> dMinVal = - 1, dMaxVal = 1, dSubSampleShift = 0, dResolution = 1 / 8,
       dLocationX = 0, dLocationY = 0, dLocationZ = 0, dLocationUser = 0,
       dHighFreqCorner = 0, dwHighFreqOrder = 0, szHighFilterType = [],
       dLowFreqCorner = 0, dwLowFreqOrder = 0, szLowFilterType = [], szProbeInfo = [] \<rparr>"

definition test_GetSegmentSourceInfo ::
  "uint32 \<Rightarrow> uint32 \<Rightarrow> uint32 \<Rightarrow> string \<Rightarrow> (int \<times> ns_SEGSOURCEINFO) \<times> string" where
  "test_GetSegmentSourceInfo file_id entity_id source_id s =
     (if source_id = 0 then ((0, test_source), s) else ((- 1, test_source), ''bad source''))"

definition test_GetEventData ::
  "uint32 \<Rightarrow> uint32 \<Rightarrow> uint32 \<Rightarrow> uint32 \<Rightarrow> string \<Rightarrow> (int \<times> double \<times> uint8 list \<times> uint32) \<times> string" where
  "test_GetEventData file_id entity_id index data_size s =
     (if entity_id = 1 then ((0, 5 / 2, [0, 0, 1, 0], 4), s)
      else ((- 1, 0, [], 0), ''bad entity''))"

definition test_GetAnalogData ::
  "uint32 \<Rightarrow> uint32 \<Rightarrow> uint32 \<Rightarrow> uint32 \<Rightarrow> string \<Rightarrow> (int \<times> uint32 \<times> double list) \<times> string" where
  "test_GetAnalogData file_id entity_id index count s =
     (if entity_id = 2 then ((0, if index = 0 then 2 else 5, [1 / 2, 1, 3 / 2]), s)
      else ((- 1, 0, []), ''bad entity''))"

definition test_GetSegmentData ::
  "uint32 \<Rightarrow> uint32 \<Rightarrow> uint32 \<Rightarrow> uint32 \<Rightarrow> string
     \<Rightarrow> (int \<times> double \<times> double list \<times> uint32 \<times> uint32) \<times> string" where
  "test_GetSegmentData file_id entity_id index buffer_size s =
     (if entity_id = 3 then ((0, 5 / 2, [1, 2, 3, 4], 2, 7), s)
      else ((- 1, 0, [], 0, 0), ''bad entity''))"

definition test_GetNeuralData ::
  "uint32 \<Rightarrow> uint32 \<Rightarrow> uint32 \<Rightarrow> uint32 \<Rightarrow> string \<Rightarrow> (int \<times> double list) \<times> string" where
  "test_GetNeuralData file_id entity_id index index_count s =
     (if entity_id = 4 then ((0, [1 / 4, 1 / 2]), s)
      else ((- 1, []), ''bad entity''))"

definition test_GetLastErrorMsg :: "nat \<Rightarrow> string \<Rightarrow> string \<times> string" where
  "test_GetLastErrorMsg buf_size s = (s, s)"

definition test_symbols :: "(string \<times> string fnptr) list" where
  "test_symbols =
     [(''ns_GetLibraryInfo'', NS_OTHER 1),
      (''ns_OpenFile'', NS_OTHER 2),
      (''ns_CloseFile'', NS_OTHER 3),
      (''ns_GetFileInfo'', NS_OTHER 4),
      (''ns_GetEntityInfo'', NS_GETENTITYINFO test_GetEntityInfo),
      (''ns_GetEventData'', NS_GETEVENTDATA test_GetEventData),
      (''ns_GetAnalogData'', NS_GETANALOGDATA test_GetAnalogData),
      (''ns_GetSegmentInfo'', NS_GETSEGMENTINFO test_GetSegmentInfo),
      (''ns_GetSegmentSourceInfo'', NS_GETSEGMENTSOURCEINFO test_GetSegmentSourceInfo),
      (''ns_GetSegmentData'', NS_GETSEGMENTDATA test_GetSegmentData),
      (''ns_GetNeuralData'', NS_GETNEURALDATA test_GetNeuralData),
      (''ns_GetLastErrorMsg'', NS_GETLASTERRORMSG test_GetLastErrorMsg)]"

definition test_loader :: "string loader" where
  "test_loader =
     \<lparr> dlopen = (\<lambda>filename. if filename = ''vendor.so'' then Some 7 else None),
       dlsym = (\<lambda>dlh name. if dlh = 7 then map_of test_symbols name else None),
       dlclose = (\<lambda>dlh. if dlh = 7 then 0 else - 1),
       dlerror = ''cannot open shared object file'' \<rparr>"

definition test_NsLibrary :: "string NsLibrary" where
  "test_NsLibrary =
     \<lparr> dl_handle = 7,
       GetLibraryInfo = Some (NS_OTHER 1),
       OpenFile = Some (NS_OTHER 2),
       CloseFile = Some (NS_OTHER 3),
       GetFileInfo = Some (NS_OTHER 4),
       GetEntityInfo = Some (NS_GETENTITYINFO test_GetEntityInfo),
       GetEventInfo = None,
       GetEventData = Some (NS_GETEVENTDATA test_GetEventData),
       GetAnalogInfo = None,
       GetAnalogData = Some (NS_GETANALOGDATA test_GetAnalogData),
       GetSegmentInfo = Some (NS_GETSEGMENTINFO test_GetSegmentInfo),
       GetSegmentSourceInfo = Some (NS_GETSEGMENTSOURCEINFO test_GetSegmentSourceInfo),
       GetSegmentData = Some (NS_GETSEGMENTDATA test_GetSegmentData),
       GetNeuralInfo = None,
       GetNeuralData = Some (NS_GETNEURALDATA test_GetNeuralData),
       GetIndexByTime = None,
       GetTimeByIndex = None,
       GetLastErrorMsg = Some (NS_GETLASTERRORMSG test_GetLastErrorMsg) \<rparr>"

text \<open>
  The world before the library is opened, with one unrelated block live, and the world after
  \<^verbatim>\<open>library_open\<close> has placed the struct.
\<close>

definition test_world0 :: "string world" where
  "test_world0 = \<lparr> native = [], heap = [(1, malloc_cell 16)] \<rparr>"

definition test_world :: "string world" where
  "test_world =
     \<lparr> native = [], heap = [(2, NsLibrary_cell test_NsLibrary), (1, malloc_cell 16)] \<rparr>"



section \<open>Properties\<close>

subsection \<open>Typed reads and the decoders\<close>


lemma uint_cat16: "uint (word_cat (b1::uint8) (b0::uint8) :: uint16) = uint b0 + 256 * uint b1"
proof -
  have b0: "0 \<le> uint b0" "uint b0 < 256" using uint_lt2p [of b0] by simp_all
  have b1: "0 \<le> uint b1" "uint b1 < 256" using uint_lt2p [of b1] by simp_all
  have "uint (word_cat b1 b0 :: uint16) = take_bit 16 (concat_bit 8 (uint b0) (uint b1))"
    by (simp add: word_cat_eq' uint_word_of_int_eq)
  also have "concat_bit 8 (uint b0) (uint b1) = uint b0 + 256 * uint b1"
    using b0 by (simp add: concat_bit_eq take_bit_eq_mod push_bit_eq_mult)
  also have "take_bit 16 (uint b0 + 256 * uint b1) = uint b0 + 256 * uint b1"
    using b0 b1 by (simp add: take_bit_eq_mod)
  finally show ?thesis .
qed

lemma unat_cat16: "unat (word_cat (b1::uint8) (b0::uint8) :: uint16) = unat b0 + 256 * unat b1"
proof -
  have "int (unat (word_cat b1 b0 :: uint16)) = int (unat b0 + 256 * unat b1)"
    using uint_cat16 [of b1 b0] by simp
  then show ?thesis by (rule int_int_eq [THEN iffD1])
qed

lemma uint_cat32: "uint (word_cat (h::uint16) (l::uint16) :: uint32) = uint l + 65536 * uint h"
proof -
  have l: "0 \<le> uint l" "uint l < 65536" using uint_lt2p [of l] by simp_all
  have h: "0 \<le> uint h" "uint h < 65536" using uint_lt2p [of h] by simp_all
  have "uint (word_cat h l :: uint32) = take_bit 32 (concat_bit 16 (uint l) (uint h))"
    by (simp add: word_cat_eq' uint_word_of_int_eq)
  also have "concat_bit 16 (uint l) (uint h) = uint l + 65536 * uint h"
    using l by (simp add: concat_bit_eq take_bit_eq_mod push_bit_eq_mult)
  also have "take_bit 32 (uint l + 65536 * uint h) = uint l + 65536 * uint h"
    using l h by (simp add: take_bit_eq_mod)
  finally show ?thesis .
qed

lemma unat_cat32: "unat (word_cat (h::uint16) (l::uint16) :: uint32) = unat l + 65536 * unat h"
proof -
  have "int (unat (word_cat h l :: uint32)) = int (unat l + 65536 * unat h)"
    using uint_cat32 [of h l] by simp
  then show ?thesis by (rule int_int_eq [THEN iffD1])
qed

lemma unat_byte_less: "unat (b :: uint8) < 256"
  using unsigned_less [of b, where ?'a = nat] by simp

lemma unat_ucast_narrow8: "unat (ucast (x :: 'a::len word) :: uint8) = unat x mod 256"
  by (simp add: unsigned_ucast_eq take_bit_eq_mod)

lemma unat_ucast_narrow16: "unat (ucast (x :: 'a::len word) :: uint16) = unat x mod 65536"
  by (simp add: unsigned_ucast_eq take_bit_eq_mod)

lemma unat_ucast_narrow32: "unat (ucast (x :: 'a::len word) :: uint32) = unat x mod 4294967296"
  by (simp add: unsigned_ucast_eq take_bit_eq_mod)

lemma load_uint8_value:
  "1 \<le> length data \<Longrightarrow> \<exists>r. load_uint8 data = Some r \<and> unat r = le_value (take 1 data)"
  by (cases data) (simp_all add: load_uint8_def)

lemma load_uint16_value:
  "2 \<le> length data \<Longrightarrow> \<exists>r. load_uint16 data = Some r \<and> unat r = le_value (take 2 data)"
  by (auto simp: load_uint16_def unat_cat16 numeral_2_eq_2 split: list.splits)

lemma load_uint32_value:
  "4 \<le> length data \<Longrightarrow> \<exists>r. load_uint32 data = Some r \<and> unat r = le_value (take 4 data)"
  apply (cases data; simp add: load_uint32_def)
  subgoal for b0 d1
    apply (cases d1; simp)
    subgoal for b1 d2
      apply (cases d2; simp)
      subgoal for b2 d3
        by (cases d3; simp add: unat_cat32 unat_cat16)
      done
    done
  done

lemma le_value_take2_hd:
  "2 \<le> length data \<Longrightarrow> le_value (take 2 data) mod 256 = le_value (take 1 data)"
  apply (cases data; simp)
  subgoal for b0 d1
    by (cases d1; simp add: unat_byte_less)
  done

lemma le_value_less: "le_value bs < 256 ^ length bs"
proof (induction bs)
  case Nil
  show ?case by simp
next
  case (Cons b bs)
  have "unat b < 256" by (rule unat_byte_less)
  moreover have "le_value bs + 1 \<le> 256 ^ length bs" using Cons.IH by simp
  then have "256 * (le_value bs + 1) \<le> 256 * 256 ^ length bs" by (rule mult_le_mono2)
  ultimately show ?case by simp
qed


lemma uint8_from_data_value:
  assumes "w = 1 \<or> w = 2 \<or> w = 4" and "w \<le> length data"
  shows "\<exists>r. uint8_from_data data w = Some r \<and> unat r = le_value (take w data) mod 256"
proof -
  consider "w = 1" | "w = 2" | "w = 4" using assms(1) by blast
  then show ?thesis
  proof cases
    case 1
    then obtain r where "load_uint8 data = Some r" "unat r = le_value (take 1 data)"
      using load_uint8_value [of data] assms(2) by auto
    moreover have "unat r < 256" by (rule unat_byte_less)
    ultimately show ?thesis using 1 by (simp add: uint8_from_data_def)
  next
    case 2
    then obtain r where "load_uint8 data = Some r" "unat r = le_value (take 1 data)"
      using load_uint8_value [of data] assms(2) by auto
    then show ?thesis using 2 assms(2) by (simp add: uint8_from_data_def le_value_take2_hd)
  next
    case 3
    then obtain r where "load_uint32 data = Some r" "unat r = le_value (take 4 data)"
      using load_uint32_value [of data] assms(2) by auto
    then show ?thesis using 3 by (simp add: uint8_from_data_def unat_ucast_narrow8)
  qed
qed

lemma uint16_from_data_value:
  assumes "w = 1 \<or> w = 2 \<or> w = 4" and "w \<le> length data"
  shows "\<exists>r. uint16_from_data data w = Some r \<and> unat r = le_value (take w data) mod 65536"
proof -
  consider "w = 1" | "w = 2" | "w = 4" using assms(1) by blast
  then show ?thesis
  proof cases
    case 1
    then obtain r where "load_uint8 data = Some r" "unat r = le_value (take 1 data)"
      using load_uint8_value [of data] assms(2) by auto
    moreover have "unat r < 256" by (rule unat_byte_less)
    ultimately show ?thesis using 1 by (simp add: uint16_from_data_def unat_ucast_narrow16)
  next
    case 2
    then obtain r where r: "load_uint16 data = Some r" "unat r = le_value (take 2 data)"
      using load_uint16_value [of data] assms(2) by auto
    have "unat r < 65536" using unsigned_less [of r, where ?'a = nat] by simp
    then show ?thesis using 2 r by (simp add: uint16_from_data_def)
  next
    case 3
    then obtain r where "load_uint32 data = Some r" "unat r = le_value (take 4 data)"
      using load_uint32_value [of data] assms(2) by auto
    then show ?thesis using 3 by (simp add: uint16_from_data_def unat_ucast_narrow16)
  qed
qed

lemma uint32_from_data_value:
  assumes "w = 1 \<or> w = 2" and "w \<le> length data"
  shows "\<exists>r. uint32_from_data data w = Some r \<and> unat r = le_value (take w data)"
proof -
  consider "w = 1" | "w = 2" using assms(1) by blast
  then show ?thesis
  proof cases
    case 1
    then obtain r where r: "load_uint8 data = Some r" "unat r = le_value (take 1 data)"
      using load_uint8_value [of data] assms(2) by auto
    have "unat r < 256" by (rule unat_byte_less)
    then show ?thesis using 1 r
      by (simp add: uint32_from_data_def unat_ucast_narrow16 unat_ucast_narrow32)
  next
    case 2
    then obtain r where r: "load_uint16 data = Some r" "unat r = le_value (take 2 data)"
      using load_uint16_value [of data] assms(2) by auto
    have "unat r < 65536" using unsigned_less [of r, where ?'a = nat] by simp
    then show ?thesis using 2 r
      by (simp add: uint32_from_data_def unat_ucast_narrow16 unat_ucast_narrow32)
  qed
qed

lemma uint32_from_data_width4:
  assumes "4 \<le> length data"
  shows "\<exists>r. uint32_from_data data 4 = Some r \<and> unat r = le_value (take 4 data) mod 65536"
proof -
  obtain r where r: "load_uint32 data = Some r" "unat r = le_value (take 4 data)"
    using load_uint32_value [of data] assms by auto
  show ?thesis using r
    by (simp add: uint32_from_data_def unat_ucast_narrow16 unat_ucast_narrow32)
qed

text \<open>
  Claim C1, as the C text has it. For a declared width \<open>w\<close> of 1, 2 or 4 and a buffer of at
  least \<open>w\<close> bytes, the byte decoder returns the little-endian value of the first \<open>w\<close> bytes
  reduced modulo \<open>2 ^ 8\<close>, the word decoder returns it reduced modulo \<open>2 ^ 16\<close>, and the
  dword decoder at width 1 or 2 returns it unchanged. The value is below \<open>2 ^ (8 * w)\<close>, so a
  decoder returns it unchanged whenever \<open>w\<close> bytes fit its return type. Nothing is stated
  here about the dword decoder at width 4.
\<close>

theorem decoders_supported_width:
  assumes "w = 1 \<or> w = 2 \<or> w = 4" and "w \<le> length data"
  shows "(\<exists>r. uint8_from_data data w = Some r \<and> unat r = le_value (take w data) mod 2 ^ 8) \<and>
         (\<exists>r. uint16_from_data data w = Some r \<and> unat r = le_value (take w data) mod 2 ^ 16) \<and>
         (w \<noteq> 4 \<longrightarrow> (\<exists>r. uint32_from_data data w = Some r \<and> unat r = le_value (take w data))) \<and>
         le_value (take w data) < 2 ^ (8 * w)"
proof -
  have "length (take w data) = w" using assms(2) by simp
  then have "le_value (take w data) < 256 ^ w"
    using le_value_less [of "take w data"] by (simp only:)
  also have "(256::nat) ^ w = 2 ^ (8 * w)" by (simp add: power_mult)
  finally have "le_value (take w data) < 2 ^ (8 * w)" .
  then show ?thesis
    using uint8_from_data_value [OF assms] uint16_from_data_value [OF assms]
      uint32_from_data_value [of w data] assms
    by auto
qed

theorem decoders_supported_width_witness:
  "((2::nat) = 1 \<or> (2::nat) = 2 \<or> (2::nat) = 4) \<and> 2 \<le> length [0, 1 :: uint8] \<and>
   uint8_from_data [0, 1] 2 = Some 0 \<and> uint16_from_data [0, 1] 2 = Some 256 \<and>
   uint32_from_data [0, 1] 2 = Some 256"
  using decoders_supported_width [of 2 "[0, 1]"]
  by (simp add: uint8_from_data_def uint16_from_data_def uint32_from_data_def
      load_uint8_def load_uint16_def word_cat_eq)

text \<open>
  The byte decoder does not return the value of the first \<open>w\<close> bytes: at width 2 the bytes
  \<open>00 01\<close> denote 256, and the decoder returns 0.
\<close>

theorem byte_decoder_narrows_counterexample:
  "map_option unat (uint8_from_data [0, 1] 2) \<noteq> Some (le_value (take 2 [0, 1]))"
  by (simp add: uint8_from_data_def load_uint8_def)

text \<open>
  Claim C8. For every buffer and every declared width other than 1, 2 and 4, each of the
  three decoders returns 0; it reads nothing and fails in no way.
\<close>

theorem decoders_unknown_width:
  assumes "data_len \<noteq> 1" and "data_len \<noteq> 2" and "data_len \<noteq> 4"
  shows "uint8_from_data data data_len = Some 0 \<and>
         uint16_from_data data data_len = Some 0 \<and>
         uint32_from_data data data_len = Some 0"
  using assms by (simp add: uint8_from_data_def uint16_from_data_def uint32_from_data_def)

theorem decoders_unknown_width_witness:
  "(3::nat) \<noteq> 1 \<and> (3::nat) \<noteq> 2 \<and> (3::nat) \<noteq> 4 \<and>
   uint8_from_data [7, 8, 9] 3 = Some 0 \<and>
   uint16_from_data [7, 8, 9] 3 = Some 0 \<and>
   uint32_from_data [7, 8, 9] 3 = Some 0"
  using decoders_unknown_width [of 3 "[7, 8, 9]"] by simp



subsection \<open>Handles: open, close, close again\<close>

lemma fresh_above: "kc \<in> set h \<Longrightarrow> fst kc < fresh h"
proof -
  assume "kc \<in> set h"
  then have "fst kc \<in> set (0 # map fst h)" by simp
  then have "fst kc \<le> Max (set (0 # map fst h))" by (intro Max_ge) simp_all
  also have "Max (set (0 # map fst h)) = fold max (map fst h) 0" by (rule Max.set_eq_fold)
  finally show ?thesis by (simp add: fresh_def)
qed

lemma release_fresh: "release (fresh h) ((fresh h, c) # h) = h"
proof -
  have "\<forall>kc \<in> set h. fst kc \<noteq> fresh h" using fresh_above [of _ h] by fastforce
  then have "filter (\<lambda>kc. fst kc \<noteq> fresh h) h = h" by (simp add: filter_id_conv)
  then show ?thesis by (simp add: release_def)
qed

lemma map_of_fresh: "map_of h (fresh h) = None"
proof -
  have "fresh h \<notin> fst ` set h" using fresh_above [of _ h] by fastforce
  then show ?thesis by (simp add: map_of_eq_None_iff)
qed

lemma library_open_success:
  assumes "dlopen L filename = Some dlh"
  shows "library_open L w [PyString filename] =
           (Return (PyCObject (fresh (heap w))),
            w\<lparr>heap := (fresh (heap w), NsLibrary_cell
               \<lparr> dl_handle = dlh,
                 GetLibraryInfo = dlsym L dlh ''ns_GetLibraryInfo'',
                 OpenFile = dlsym L dlh ''ns_OpenFile'',
                 CloseFile = dlsym L dlh ''ns_CloseFile'',
                 GetFileInfo = dlsym L dlh ''ns_GetFileInfo'',
                 GetEntityInfo = dlsym L dlh ''ns_GetEntityInfo'',
                 GetEventInfo = dlsym L dlh ''ns_GetEventInfo'',
                 GetEventData = dlsym L dlh ''ns_GetEventData'',
                 GetAnalogInfo = dlsym L dlh ''ns_GetAnalogInfo'',
                 GetAnalogData = dlsym L dlh ''ns_GetAnalogData'',
                 GetSegmentInfo = dlsym L dlh ''ns_GetSegmentInfo'',
                 GetSegmentSourceInfo = dlsym L dlh ''ns_GetSegmentSourceInfo'',
                 GetSegmentData = dlsym L dlh ''ns_GetSegmentData'',
                 GetNeuralInfo = dlsym L dlh ''ns_GetNeuralInfo'',
                 GetNeuralData = dlsym L dlh ''ns_GetNeuralData'',
                 GetIndexByTime = dlsym L dlh ''ns_GetIndexByTime'',
                 GetTimeByIndex = dlsym L dlh ''ns_GetTimeByIndex'',
                 GetLastErrorMsg = dlsym L dlh ''ns_GetLastErrorMsg'' \<rparr>) # heap w\<rparr>)"
  using assms by (simp add: library_open_def alloc_def)

text \<open>
  Claim C9. Whenever \<^verbatim>\<open>dlopen\<close> yields a handle, \<^verbatim>\<open>library_open\<close> returns a handle object,
  whatever \<^verbatim>\<open>dlsym\<close> answers: the struct behind the handle is live, and each of its slots (the
  C text has seventeen) holds what \<^verbatim>\<open>dlsym\<close> returned for the symbol of that slot, the null
  pointer included.
\<close>

theorem library_open_tolerates_missing_symbols:
  assumes "dlopen L filename = Some dlh"
  shows "\<exists>a lib w'.
           library_open L w [PyString filename] = (Return (PyCObject a), w') \<and>
           NsLibrary_at w' a = Some lib \<and>
           dl_handle lib = dlh \<and>
           GetLibraryInfo lib = dlsym L dlh ''ns_GetLibraryInfo'' \<and>
           OpenFile lib = dlsym L dlh ''ns_OpenFile'' \<and>
           CloseFile lib = dlsym L dlh ''ns_CloseFile'' \<and>
           GetFileInfo lib = dlsym L dlh ''ns_GetFileInfo'' \<and>
           GetEntityInfo lib = dlsym L dlh ''ns_GetEntityInfo'' \<and>
           GetEventInfo lib = dlsym L dlh ''ns_GetEventInfo'' \<and>
           GetEventData lib = dlsym L dlh ''ns_GetEventData'' \<and>
           GetAnalogInfo lib = dlsym L dlh ''ns_GetAnalogInfo'' \<and>
           GetAnalogData lib = dlsym L dlh ''ns_GetAnalogData'' \<and>
           GetSegmentInfo lib = dlsym L dlh ''ns_GetSegmentInfo'' \<and>
           GetSegmentSourceInfo lib = dlsym L dlh ''ns_GetSegmentSourceInfo'' \<and>
           GetSegmentData lib = dlsym L dlh ''ns_GetSegmentData'' \<and>
           GetNeuralInfo lib = dlsym L dlh ''ns_GetNeuralInfo'' \<and>
           GetNeuralData lib = dlsym L dlh ''ns_GetNeuralData'' \<and>
           GetIndexByTime lib = dlsym L dlh ''ns_GetIndexByTime'' \<and>
           GetTimeByIndex lib = dlsym L dlh ''ns_GetTimeByIndex'' \<and>
           GetLastErrorMsg lib = dlsym L dlh ''ns_GetLastErrorMsg''"
  unfolding library_open_success [OF assms]
  by (simp add: NsLibrary_at_def)

lemma test_dlopen: "dlopen test_loader ''vendor.so'' = Some 7"
  by (simp add: test_loader_def)

lemma test_open:
  "library_open test_loader test_world0 [PyString ''vendor.so''] =
     (Return (PyCObject 2), test_world)"
  by (simp add: library_open_def test_loader_def test_symbols_def alloc_def fresh_def
      test_world_def test_world0_def test_NsLibrary_def)

lemma test_dlsym_missing:
  "dlsym test_loader 7 ''ns_GetEventInfo'' = None"
  "dlsym test_loader 7 ''ns_GetTimeByIndex'' = None"
  by (simp_all add: test_loader_def test_symbols_def)

theorem library_open_tolerates_missing_symbols_witness:
  "dlopen test_loader ''vendor.so'' = Some 7 \<and>
   dlsym test_loader 7 ''ns_GetEventInfo'' = None \<and>
   dlsym test_loader 7 ''ns_GetTimeByIndex'' = None \<and>
   library_open test_loader test_world0 [PyString ''vendor.so''] =
     (Return (PyCObject 2), test_world) \<and>
   NsLibrary_at test_world 2 = Some test_NsLibrary \<and>
   GetEventInfo test_NsLibrary = None \<and>
   GetTimeByIndex test_NsLibrary = None"
  using library_open_tolerates_missing_symbols
          [of test_loader "''vendor.so''" 7 "test_world0"]
  by (simp add: test_open test_dlopen test_dlsym_missing test_world_def NsLibrary_at_def
      test_NsLibrary_def)

text \<open>
  Claim C6, as the C text has it. After a successful \<^verbatim>\<open>library_open\<close>, a first
  \<^verbatim>\<open>library_close\<close> on the handle returns \<^verbatim>\<open>None\<close> when \<^verbatim>\<open>dlclose\<close> reports 0, and frees the
  struct, which leaves the heap as it was before the open. The handle object still holds the
  address: no struct is live there any more, and a second \<^verbatim>\<open>library_close\<close> on the same handle
  reads the freed struct, which is undefined behaviour and not a raised error.
\<close>

theorem library_close_twice:
  assumes "dlopen L filename = Some dlh" and "dlclose L dlh = 0"
  shows "\<exists>a w1 w2.
           library_open L w [PyString filename] = (Return (PyCObject a), w1) \<and>
           library_close L w1 [PyCObject a] = (Return PyNone, w2) \<and>
           heap w2 = heap w \<and>
           NsLibrary_at w2 a = None \<and>
           library_close L w2 [PyCObject a] = (Undefined, w2)"
  unfolding library_open_success [OF assms(1)]
  using assms(2)
  by (simp add: library_close_def PyCObject_Check_def PyCObject_AsVoidPtr_def NsLibrary_at_def
      release_fresh map_of_fresh)

lemma test_dlclose: "dlclose test_loader 7 = 0"
  by (simp add: test_loader_def)

lemma test_close_first:
  "library_close test_loader test_world [PyCObject 2] =
     (Return PyNone, test_world0)"
  by (simp add: library_close_def PyCObject_Check_def PyCObject_AsVoidPtr_def
      NsLibrary_at_def test_world_def test_world0_def test_NsLibrary_def test_dlclose release_def)

lemma test_close_second:
  "library_close test_loader test_world0 [PyCObject 2] =
     (Undefined, test_world0)"
  by (simp add: library_close_def PyCObject_Check_def PyCObject_AsVoidPtr_def NsLibrary_at_def
      test_world0_def)

theorem library_close_twice_witness:
  "dlopen test_loader ''vendor.so'' = Some 7 \<and> dlclose test_loader 7 = 0 \<and>
   library_close test_loader test_world [PyCObject 2] =
     (Return PyNone, test_world0) \<and>
   library_close test_loader test_world0 [PyCObject 2] =
     (Undefined, test_world0)"
  using library_close_twice [of test_loader "''vendor.so''" 7 "test_world0"]
  by (simp add: test_open test_dlopen test_dlclose test_close_first test_close_second)

text \<open>
  On the test double the second close of a handle is not rejected: the open and the first
  close succeed, and the second close has undefined behaviour.
\<close>

theorem second_close_unchecked_counterexample:
  "fst (library_open test_loader test_world0 [PyString ''vendor.so'']) =
     Return (PyCObject 2) \<and>
   fst (library_close test_loader
          (snd (library_open test_loader test_world0 [PyString ''vendor.so'']))
          [PyCObject 2]) = Return PyNone \<and>
   fst (library_close test_loader
          (snd (library_close test_loader
                  (snd (library_open test_loader test_world0 [PyString ''vendor.so'']))
                  [PyCObject 2]))
          [PyCObject 2]) = Undefined"
  by (simp add: test_open test_close_first test_close_second)

subsection \<open>The data accessors on success and on failure\<close>

lemma check_result_ok:
  "res = ns_OK K \<Longrightarrow> check_result_is_error K res lib s = Some (None, s)"
  by (simp add: check_result_is_error_def)


lemmas arg_simps =
  PyCObject_Check_def PyInt_Check_def PyInt_AsUnsignedLongMask_def PyCObject_AsVoidPtr_def
  alloc_def Let_def





lemma do_get_event_data_success:
  assumes "NsLibrary_at w a = Some l"
    and "GetEventData l = Some (NS_GETEVENTDATA f)"
    and "f (word_of_int fi) (word_of_int ei) (word_of_int ix) (word_of_int n) (native w) =
           ((ns_OK K, ts, bs, rn), s1)"
    and "event_data_obj K (word_of_int tp) (take (unat (word_of_int n :: uint32)) bs) rn = Some ob"
  shows "do_get_event_data K w [PyCObject a, PyInt fi, PyInt ei, PyInt ix, PyInt tp, PyInt n] =
           (Return (PyTuple [PyFloat ts, ob]), \<lparr>native = s1, heap = heap w\<rparr>)"
  using assms
  by (simp add: do_get_event_data_def arg_simps check_result_ok release_fresh)

lemma do_get_analog_data_success:
  assumes "NsLibrary_at w a = Some l"
    and "GetAnalogData l = Some (NS_GETANALOGDATA f)"
    and "f (word_of_int fi) (word_of_int ei) (word_of_int ix) (word_of_int n) (native w) =
           ((ns_OK K, cc, xs), s1)"
  shows "do_get_analog_data K w [PyCObject a, PyInt fi, PyInt ei, PyInt ix, PyInt n] =
           (Return (PyTuple [PyArray (fresh (heap w)) [unat (word_of_int n :: uint32)]
                               (ndarray_fill (unat (word_of_int n :: uint32)) xs),
                             PyInt (uint cc)]),
            \<lparr>native = s1,
              heap = (fresh (heap w), ndarray_cell [unat (word_of_int n :: uint32)]) # heap w\<rparr>)"
  using assms
  by (simp add: do_get_analog_data_def arg_simps check_result_ok PyInt_FromLong_def)


lemma length_ndarray_fill: "length (ndarray_fill n xs) = n"
  by (simp add: ndarray_fill_def)

lemma unat_mask32: "unat (word_of_int n :: uint32) = nat (n mod 2 ^ 32)"
  by (simp add: unat_eq_nat_uint uint_word_of_int take_bit_eq_mod)


lemma test_lib_at: "NsLibrary_at test_world 2 = Some test_NsLibrary"
  by (simp add: NsLibrary_at_def test_world_def)

lemma test_heap: "heap test_world = [(2, NsLibrary_cell test_NsLibrary), (1, malloc_cell 16)]"
  by (simp add: test_world_def)

lemma test_native: "native test_world = []"
  by (simp add: test_world_def)

lemma test_slots:
  "GetLastErrorMsg test_NsLibrary = Some (NS_GETLASTERRORMSG test_GetLastErrorMsg)"
  "GetEventData test_NsLibrary = Some (NS_GETEVENTDATA test_GetEventData)"
  "GetAnalogData test_NsLibrary = Some (NS_GETANALOGDATA test_GetAnalogData)"
  "GetSegmentData test_NsLibrary = Some (NS_GETSEGMENTDATA test_GetSegmentData)"
  "GetNeuralData test_NsLibrary = Some (NS_GETNEURALDATA test_GetNeuralData)"
  "GetEntityInfo test_NsLibrary = Some (NS_GETENTITYINFO test_GetEntityInfo)"
  "GetSegmentInfo test_NsLibrary = Some (NS_GETSEGMENTINFO test_GetSegmentInfo)"
  "GetSegmentSourceInfo test_NsLibrary = Some (NS_GETSEGMENTSOURCEINFO test_GetSegmentSourceInfo)"
  by (simp_all add: test_NsLibrary_def)

lemma test_fresh: "fresh (heap test_world) = 3"
  by (simp add: test_heap fresh_def)

text \<open>
  Claim C4, as the C text has it. When the vendor call reports \<^verbatim>\<open>ns_OK\<close>, \<^verbatim>\<open>do_get_analog_data\<close>
  returns the pair of an array and the count \<open>cc\<close> that the vendor call stored, unchanged. The
  array has one dimension, of the requested count \<open>n\<close> reduced modulo \<open>2 ^ 32\<close>, which is
  \<open>n\<close> itself for \<open>0 \<le> n < 2 ^ 32\<close>. The module compares \<open>cc\<close> with nothing.
\<close>

theorem analog_data_shape:
  assumes "NsLibrary_at w a = Some l"
    and "GetAnalogData l = Some (NS_GETANALOGDATA f)"
    and "f (word_of_int fi) (word_of_int ei) (word_of_int ix) (word_of_int n) (native w) =
           ((ns_OK K, cc, xs), s1)"
  shows "\<exists>p arr w'.
           do_get_analog_data K w [PyCObject a, PyInt fi, PyInt ei, PyInt ix, PyInt n] =
             (Return (PyTuple [PyArray p [length arr] arr, PyInt (uint cc)]), w') \<and>
           length arr = nat (n mod 2 ^ 32) \<and>
           (0 \<le> n \<and> n < 2 ^ 32 \<longrightarrow> length arr = nat n)"
  unfolding do_get_analog_data_success [OF assms]
  by (simp add: length_ndarray_fill unat_mask32)

theorem analog_data_shape_witness:
  "NsLibrary_at test_world 2 = Some test_NsLibrary \<and>
   GetAnalogData test_NsLibrary = Some (NS_GETANALOGDATA test_GetAnalogData) \<and>
   test_GetAnalogData 0 2 0 3 (native test_world) = ((ns_OK test_API, 2, [1 / 2, 1, 3 / 2]), []) \<and>
   do_get_analog_data test_API test_world [PyCObject 2, PyInt 0, PyInt 2, PyInt 0, PyInt 3] =
     (Return (PyTuple [PyArray 3 [3] [Some (1 / 2), Some 1, Some (3 / 2)], PyInt 2]),
      \<lparr>native = [], heap = (3, ndarray_cell [3]) # heap test_world\<rparr>)"
proof -
  have call: "test_GetAnalogData (word_of_int 0) (word_of_int 2) (word_of_int 0) (word_of_int 3)
                (native test_world) = ((ns_OK test_API, 2, [1 / 2, 1, 3 / 2]), [])"
    by (simp add: test_GetAnalogData_def test_API_def test_native)
  show ?thesis
    using analog_data_shape [OF test_lib_at test_slots(3) call]
      do_get_analog_data_success [OF test_lib_at test_slots(3) call] call
    by (simp add: test_lib_at test_slots test_fresh ndarray_fill_def)
qed

text \<open>
  Two calls that break the claim as stated. The test double reports five contiguous samples
  for a request of three, and the module returns the five. A request for \<open>2 ^ 32 + 3\<close>
  samples, which a Python 2 \<^verbatim>\<open>int\<close> holds on an LP64 target, yields an array of three.
\<close>

theorem analog_data_counterexample:
  "fst (do_get_analog_data test_API test_world [PyCObject 2, PyInt 0, PyInt 2, PyInt 1, PyInt 3]) =
     Return (PyTuple [PyArray 3 [3] [Some (1 / 2), Some 1, Some (3 / 2)], PyInt 5]) \<and>
   fst (do_get_analog_data test_API test_world
          [PyCObject 2, PyInt 0, PyInt 2, PyInt 0, PyInt 4294967299]) =
     Return (PyTuple [PyArray 3 [3] [Some (1 / 2), Some 1, Some (3 / 2)], PyInt 2])"
proof -
  have c1: "test_GetAnalogData (word_of_int 0) (word_of_int 2) (word_of_int 1) (word_of_int 3)
                (native test_world) = ((ns_OK test_API, 5, [1 / 2, 1, 3 / 2]), [])"
    by (simp add: test_GetAnalogData_def test_API_def test_native)
  have c2: "test_GetAnalogData (word_of_int 0) (word_of_int 2) (word_of_int 0) (word_of_int 4294967299)
                (native test_world) = ((ns_OK test_API, 2, [1 / 2, 1, 3 / 2]), [])"
    by (simp add: test_GetAnalogData_def test_API_def test_native)
  have m: "unat (word_of_int 4294967299 :: uint32) = 3" by (simp add: unat_mask32)
  show ?thesis
    unfolding do_get_analog_data_success [OF test_lib_at test_slots(3) c1]
      do_get_analog_data_success [OF test_lib_at test_slots(3) c2]
    by (simp add: test_fresh ndarray_fill_def m)
qed




lemma event_data_obj_dword:
  assumes "ns_API_ok K" and "4 \<le> length buffer"
  shows "event_data_obj K (ns_EVENT_DWORD K) buffer 4 =
           Some (PyInt (int (le_value (take 4 buffer) mod 65536)))"
proof -
  obtain r where r: "uint32_from_data buffer 4 = Some r" "unat r = le_value (take 4 buffer) mod 65536"
    using uint32_from_data_width4 [OF assms(2)] by blast
  have ne: "ns_EVENT_DWORD K \<noteq> ns_EVENT_TEXT K" "ns_EVENT_DWORD K \<noteq> ns_EVENT_CSV K"
    "ns_EVENT_DWORD K \<noteq> ns_EVENT_BYTE K" "ns_EVENT_DWORD K \<noteq> ns_EVENT_WORD K"
    using assms(1) by (auto simp: ns_API_ok_def)
  have "uint r = int (unat r)" by simp
  then have "uint r = int (le_value (take 4 buffer) mod 65536)" by (simp only: r(2))
  then show ?thesis using ne r(1)
    by (simp add: event_data_obj_def PyInt_FromLong_def)
qed

text \<open>
  Claim C2, where the C text departs from it. For a successful call with the declared subtype
  Dword in which the vendor call reports four bytes written, into a buffer of at least four
  bytes, the payload is the little-endian value of the four bytes reduced modulo \<open>2 ^ 16\<close>,
  not their value as a 32-bit unsigned integer: \<^verbatim>\<open>uint32_from_data\<close> keeps the value in a
  \<^verbatim>\<open>uint16\<close>. The evaluation after it is the failing input: the test double fills the bytes
  \<open>00 00 01 00\<close>, which denote 65536, and the payload returned is 0.
\<close>

theorem event_dword_payload_truncated:
  assumes "ns_API_ok K"
    and "NsLibrary_at w a = Some l"
    and "GetEventData l = Some (NS_GETEVENTDATA f)"
    and "f (word_of_int fi) (word_of_int ei) (word_of_int ix) (word_of_int n) (native w) =
           ((ns_OK K, ts, bs, 4), s1)"
    and "word_of_int tp = ns_EVENT_DWORD K"
    and "4 \<le> unat (word_of_int n :: uint32)" and "4 \<le> length bs"
  shows "do_get_event_data K w [PyCObject a, PyInt fi, PyInt ei, PyInt ix, PyInt tp, PyInt n] =
           (Return (PyTuple [PyFloat ts, PyInt (int (le_value (take 4 bs) mod 65536))]),
            \<lparr>native = s1, heap = heap w\<rparr>)"
proof -
  let ?buffer = "take (unat (word_of_int n :: uint32)) bs"
  have len: "4 \<le> length ?buffer" using assms(6,7) by simp
  have "take 4 ?buffer = take 4 bs" using assms(6) by (simp add: min_def)
  then have "event_data_obj K (word_of_int tp) ?buffer 4 =
               Some (PyInt (int (le_value (take 4 bs) mod 65536)))"
    using event_data_obj_dword [OF assms(1) len] assms(5) by simp
  then show ?thesis
    by (rule do_get_event_data_success [OF assms(2,3,4)])
qed

theorem event_dword_payload_truncated_witness:
  "ns_API_ok test_API \<and>
   test_GetEventData 0 1 0 4 (native test_world) = ((ns_OK test_API, 5 / 2, [0, 0, 1, 0], 4), []) \<and>
   do_get_event_data test_API test_world [PyCObject 2, PyInt 0, PyInt 1, PyInt 0, PyInt 4, PyInt 4] =
     (Return (PyTuple [PyFloat (5 / 2), PyInt 0]), test_world) \<and>
   le_value [0, 0, 1, 0] = 65536"
proof -
  have ok: "ns_API_ok test_API"
    by (simp add: ns_API_ok_def test_API_def)
  have call: "test_GetEventData (word_of_int 0) (word_of_int 1) (word_of_int 0) (word_of_int 4)
                (native test_world) = ((ns_OK test_API, 5 / 2, [0, 0, 1, 0], 4), [])"
    by (simp add: test_GetEventData_def test_API_def test_native)
  have tp: "(word_of_int 4 :: uint32) = ns_EVENT_DWORD test_API"
    by (simp add: test_API_def)
  have cap: "4 \<le> unat (word_of_int 4 :: uint32)" by simp
  have len: "4 \<le> length [0, 0, 1, 0 :: uint8]" by simp
  show ?thesis
    using event_dword_payload_truncated [OF ok test_lib_at test_slots(2) call tp cap len] ok call
    by (simp add: test_world_def)
qed



subsection \<open>A failing data call without the last-error entry point\<close>





subsection \<open>Segment information\<close>

lemma unat_source_index: "j < 2 ^ 32 \<Longrightarrow> unat (word_of_nat j :: uint32) = j"
  by (simp add: unsigned_of_nat take_bit_eq_mod)

lemma segment_source_dict:
  "fold (\<lambda>(string, item) d. dict_set_item_eat_ref d string item)
     (segment_source_info_items info) [] =
   [(''MinVal'', PyFloat (dMinVal info)),
    (''MaxVal'', PyFloat (dMaxVal info)),
    (''SubSampleShift'', PyFloat (dSubSampleShift info)),
    (''Resolution'', PyFloat (dResolution info)),
    (''LocationX'', PyFloat (dLocationX info)),
    (''LocationY'', PyFloat (dLocationY info)),
    (''LocationZ'', PyFloat (dLocationZ info)),
    (''LocationUser'', PyFloat (dLocationUser info)),
    (''HighFreqCorner'', PyFloat (dHighFreqCorner info)),
    (''HighFreqOrder'', PyInt (uint (dwHighFreqOrder info))),
    (''HighFilterType'', PyString (szHighFilterType info)),
    (''LowFreqCorner'', PyFloat (dLowFreqCorner info)),
    (''LowFreqOrder'', PyInt (uint (dwLowFreqOrder info))),
    (''LowFilterType'', PyString (szLowFilterType info)),
    (''ProbeInfo'', PyString (ns_SEGSOURCEINFO.szProbeInfo info))]"
  by (simp add: segment_source_info_items_def dict_set_item_eat_ref_def PyInt_FromLong_def)

lemma get_and_add_segment_source_info_entry:
  assumes "GetSegmentSourceInfo lib = Some (NS_GETSEGMENTSOURCEINFO f)"
    and "unat source_id < length list"
  shows "\<exists>res. get_and_add_segment_source_info K lib file_id entity_id source_id list s =
           Some ((res,
                  list[unat source_id :=
                         (if fst (fst (f file_id entity_id source_id s)) \<noteq> ns_OK K then PyDict []
                          else PyDict (fold (\<lambda>(string, item) d. dict_set_item_eat_ref d string item)
                                         (segment_source_info_items
                                            (snd (fst (f file_id entity_id source_id s)))) []))]),
                 snd (f file_id entity_id source_id s))"
  using assms
  by (cases "f file_id entity_id source_id s")
     (auto simp: get_and_add_segment_source_info_def Let_def)

lemma segment_source_loop_result:
  assumes "GetSegmentSourceInfo lib = Some (NS_GETSEGMENTSOURCEINFO f)"
    and "length list = n" and "n < 2 ^ 32" and "i \<le> n"
    and "s = source_call_state f file_id entity_id i s0"
  shows "\<exists>list'.
           segment_source_loop K lib file_id entity_id n i list s =
             Some (list', source_call_state f file_id entity_id n s0) \<and>
           length list' = n \<and>
           (\<forall>j<i. list' ! j = list ! j) \<and>
           (\<forall>j. i \<le> j \<and> j < n \<longrightarrow>
                list' ! j =
                  (if fst (fst (f file_id entity_id (word_of_nat j)
                                  (source_call_state f file_id entity_id j s0))) \<noteq> ns_OK K
                   then PyDict []
                   else PyDict (fold (\<lambda>(string, item) d. dict_set_item_eat_ref d string item)
                                  (segment_source_info_items
                                     (snd (fst (f file_id entity_id (word_of_nat j)
                                                  (source_call_state f file_id entity_id j s0))))) [])))"
  using assms
proof (induction K lib file_id entity_id n i list s rule: segment_source_loop.induct)
  case (1 K lib file_id entity_id n i list s)
  show ?case
  proof (cases "i < n")
    case False
    then have "i = n" using "1.prems"(4) by simp
    then show ?thesis using "1.prems"
      by (auto simp: segment_source_loop.simps [of K lib file_id entity_id n n])
  next
    case True
    have ui: "unat (word_of_nat i :: uint32) = i"
      using True "1.prems"(3) by (intro unat_source_index) simp
    let ?r = "fst (f file_id entity_id (word_of_nat i) s)"
    let ?e = "if fst ?r \<noteq> ns_OK K then PyDict []
              else PyDict (fold (\<lambda>(string, item) d. dict_set_item_eat_ref d string item)
                             (segment_source_info_items (snd ?r)) [])"
    let ?s1 = "snd (f file_id entity_id (word_of_nat i) s)"
    obtain res where step:
      "get_and_add_segment_source_info K lib file_id entity_id (word_of_nat i) list s =
         Some ((res, list[i := ?e]), ?s1)"
      using get_and_add_segment_source_info_entry
              [OF "1.prems"(1), of "word_of_nat i" list K file_id entity_id s]
        True "1.prems"(2) ui by auto
    have len: "length (list[i := ?e]) = n" using "1.prems"(2) by simp
    have next_state: "?s1 = source_call_state f file_id entity_id (Suc i) s0"
      using "1.prems"(5) by simp
    have le: "Suc i \<le> n" using True by simp
    obtain list' where rec:
      "segment_source_loop K lib file_id entity_id n (Suc i) (list[i := ?e]) ?s1 =
         Some (list', source_call_state f file_id entity_id n s0)"
      "length list' = n"
      "\<forall>j<Suc i. list' ! j = (list[i := ?e]) ! j"
      "\<forall>j. Suc i \<le> j \<and> j < n \<longrightarrow>
           list' ! j =
             (if fst (fst (f file_id entity_id (word_of_nat j)
                             (source_call_state f file_id entity_id j s0))) \<noteq> ns_OK K
              then PyDict []
              else PyDict (fold (\<lambda>(string, item) d. dict_set_item_eat_ref d string item)
                             (segment_source_info_items
                                (snd (fst (f file_id entity_id (word_of_nat j)
                                             (source_call_state f file_id entity_id j s0))))) []))"
      using "1.IH" [OF True step refl refl "1.prems"(1) len "1.prems"(3) le next_state]
      by blast
    have run: "segment_source_loop K lib file_id entity_id n i list s =
                 Some (list', source_call_state f file_id entity_id n s0)"
      using True step rec(1)
      by (simp add: segment_source_loop.simps [of K lib file_id entity_id n i])
    have before: "\<forall>j<i. list' ! j = list ! j"
      using rec(3) by (auto simp: nth_list_update)
    have at_i: "list' ! i = ?e"
      using rec(3) True "1.prems"(2) by (auto simp: nth_list_update)
    have after: "\<forall>j. i \<le> j \<and> j < n \<longrightarrow>
           list' ! j =
             (if fst (fst (f file_id entity_id (word_of_nat j)
                             (source_call_state f file_id entity_id j s0))) \<noteq> ns_OK K
              then PyDict []
              else PyDict (fold (\<lambda>(string, item) d. dict_set_item_eat_ref d string item)
                             (segment_source_info_items
                                (snd (fst (f file_id entity_id (word_of_nat j)
                                             (source_call_state f file_id entity_id j s0))))) []))"
    proof (intro allI impI)
      fix j assume j: "i \<le> j \<and> j < n"
      show "list' ! j =
             (if fst (fst (f file_id entity_id (word_of_nat j)
                             (source_call_state f file_id entity_id j s0))) \<noteq> ns_OK K
              then PyDict []
              else PyDict (fold (\<lambda>(string, item) d. dict_set_item_eat_ref d string item)
                             (segment_source_info_items
                                (snd (fst (f file_id entity_id (word_of_nat j)
                                             (source_call_state f file_id entity_id j s0))))) []))"
      proof (cases "j = i")
        case True
        then show ?thesis using at_i "1.prems"(5) by simp
      next
        case False
        then have "Suc i \<le> j \<and> j < n" using j by simp
        then show ?thesis using rec(4) by blast
      qed
    qed
    show ?thesis using run rec(2) before after by blast
  qed
qed


lemma get_and_add_segment_info_result:
  assumes "GetSegmentInfo lib = Some (NS_GETSEGMENTINFO f2)"
    and "f2 file_id entity_id s = ((ns_OK K, sinfo), s2)"
    and "GetSegmentSourceInfo lib = Some (NS_GETSEGMENTSOURCEINFO f3)"
  shows "\<exists>d L.
           get_and_add_segment_info K lib file_id entity_id dict s =
             Some ((ns_OK K, d),
                   source_call_state f3 file_id entity_id (unat (dwSourceCount sinfo)) s2) \<and>
           map_of d ''SourceCount'' = Some (PyInt (uint (dwSourceCount sinfo))) \<and>
           map_of d ''SourceInfos'' = Some (PyList L) \<and>
           length L = unat (dwSourceCount sinfo) \<and>
           (\<forall>j<length L. L ! j = (if fst (fst (f3 file_id entity_id (word_of_nat j)
                                  (source_call_state f3 file_id entity_id j s2))) \<noteq> ns_OK K
                   then PyDict []
                   else PyDict (fold (\<lambda>(string, item) d. dict_set_item_eat_ref d string item)
                                  (segment_source_info_items
                                     (snd (fst (f3 file_id entity_id (word_of_nat j)
                                                  (source_call_state f3 file_id entity_id j s2))))) [])))"
proof -
  let ?n = "unat (dwSourceCount sinfo)"
  have n: "?n < 2 ^ 32" using unsigned_less [of "dwSourceCount sinfo", where ?'a = nat] by simp
  have s0: "s2 = source_call_state f3 file_id entity_id 0 s2" by simp
  obtain L where loop:
    "segment_source_loop K lib file_id entity_id ?n 0 (replicate ?n PyNone) s2 =
       Some (L, source_call_state f3 file_id entity_id ?n s2)"
    "length L = ?n"
    "\<forall>j. 0 \<le> j \<and> j < ?n \<longrightarrow> L ! j = (if fst (fst (f3 file_id entity_id (word_of_nat j)
                                  (source_call_state f3 file_id entity_id j s2))) \<noteq> ns_OK K
                   then PyDict []
                   else PyDict (fold (\<lambda>(string, item) d. dict_set_item_eat_ref d string item)
                                  (segment_source_info_items
                                     (snd (fst (f3 file_id entity_id (word_of_nat j)
                                                  (source_call_state f3 file_id entity_id j s2))))) []))"
    using segment_source_loop_result
            [OF assms(3) _ n _ s0, of "replicate ?n PyNone" K]
    by auto
  show ?thesis
    using assms(1,2) loop
    by (simp add: get_and_add_segment_info_def Let_def dict_set_item_eat_ref_def update_conv'
        PyInt_FromLong_def)
qed

lemma do_get_entity_info_segment:
  assumes "ns_API_ok K"
    and "NsLibrary_at w a = Some l"
    and "GetEntityInfo l = Some (NS_GETENTITYINFO f1)"
    and "f1 (word_of_int fi) (word_of_int ei) (native w) = ((ns_OK K, einfo), s1)"
    and "dwEntityType einfo = ns_ENTITY_SEGMENT K"
    and "GetSegmentInfo l = Some (NS_GETSEGMENTINFO f2)"
    and "f2 (word_of_int fi) (word_of_int ei) s1 = ((ns_OK K, sinfo), s2)"
    and "GetSegmentSourceInfo l = Some (NS_GETSEGMENTSOURCEINFO f3)"
  shows "\<exists>d L w'.
           do_get_entity_info K w [PyCObject a, PyInt fi, PyInt ei] = (Return (PyDict d), w') \<and>
           map_of d ''SourceCount'' = Some (PyInt (uint (dwSourceCount sinfo))) \<and>
           map_of d ''SourceInfos'' = Some (PyList L) \<and>
           length L = unat (dwSourceCount sinfo) \<and>
           (\<forall>j<length L. L ! j = (if fst (fst (f3 (word_of_int fi) (word_of_int ei) (word_of_nat j)
                                  (source_call_state f3 (word_of_int fi) (word_of_int ei) j s2))) \<noteq> ns_OK K
                   then PyDict []
                   else PyDict (fold (\<lambda>(string, item) d. dict_set_item_eat_ref d string item)
                                  (segment_source_info_items
                                     (snd (fst (f3 (word_of_int fi) (word_of_int ei) (word_of_nat j)
                                                  (source_call_state f3 (word_of_int fi) (word_of_int ei) j s2))))) [])))"
proof -
  have ne: "ns_ENTITY_SEGMENT K \<noteq> ns_ENTITY_EVENT K" "ns_ENTITY_SEGMENT K \<noteq> ns_ENTITY_ANALOG K"
    using assms(1) by (auto simp: ns_API_ok_def)
  let ?d3 = "dict_set_item_eat_ref
               (dict_set_item_eat_ref
                  (dict_set_item_eat_ref [] ''EntityLabel'' (PyString (szEntityLabel einfo)))
                  ''EntityType'' (PyInt_FromLong (dwEntityType einfo)))
               ''ItemCount'' (PyInt_FromLong (dwItemCount einfo))"
  let ?s' = "source_call_state f3 (word_of_int fi) (word_of_int ei) (unat (dwSourceCount sinfo)) s2"
  obtain d L where seg:
    "get_and_add_segment_info K l (word_of_int fi) (word_of_int ei) ?d3 s1 = Some ((ns_OK K, d), ?s')"
    "map_of d ''SourceCount'' = Some (PyInt (uint (dwSourceCount sinfo)))"
    "map_of d ''SourceInfos'' = Some (PyList L)"
    "length L = unat (dwSourceCount sinfo)"
    "\<forall>j<length L. L ! j = (if fst (fst (f3 (word_of_int fi) (word_of_int ei) (word_of_nat j)
                                  (source_call_state f3 (word_of_int fi) (word_of_int ei) j s2))) \<noteq> ns_OK K
                   then PyDict []
                   else PyDict (fold (\<lambda>(string, item) d. dict_set_item_eat_ref d string item)
                                  (segment_source_info_items
                                     (snd (fst (f3 (word_of_int fi) (word_of_int ei) (word_of_nat j)
                                                  (source_call_state f3 (word_of_int fi) (word_of_int ei) j s2))))) []))"
    using get_and_add_segment_info_result [OF assms(6,7,8), of ?d3] by blast
  have "do_get_entity_info K w [PyCObject a, PyInt fi, PyInt ei] =
          (Return (PyDict d), w\<lparr>native := ?s'\<rparr>)"
    using assms(2,3,4,5) ne seg(1)
    by (simp add: do_get_entity_info_def PyCObject_Check_def PyInt_Check_def
        PyInt_AsUnsignedLongMask_def PyCObject_AsVoidPtr_def Let_def check_result_ok
        entity_info_switch_def)
  then show ?thesis using seg(2,3,4,5) by blast
qed

lemma test_source_dict:
  "fold (\<lambda>(string, item) d. dict_set_item_eat_ref d string item)
     (segment_source_info_items test_source) [] = segment_source_info_items test_source"
  by (simp add: segment_source_info_items_def dict_set_item_eat_ref_def)

lemma test_source_step0:
  "get_and_add_segment_source_info test_API test_NsLibrary 0 3 0 [PyNone, PyNone] [] =
     Some ((0, [PyDict (segment_source_info_items test_source), PyNone]), [])"
  by (simp add: get_and_add_segment_source_info_def test_slots test_GetSegmentSourceInfo_def
      test_API_def test_source_dict)

lemma test_source_step1:
  "get_and_add_segment_source_info test_API test_NsLibrary 0 3 1
     [PyDict (segment_source_info_items test_source), PyNone] [] =
     Some ((- 1, [PyDict (segment_source_info_items test_source), PyDict []]), ''bad source'')"
  by (simp add: get_and_add_segment_source_info_def test_slots test_GetSegmentSourceInfo_def
      test_API_def)

lemma test_source_loop:
  "segment_source_loop test_API test_NsLibrary 0 3 2 0 [PyNone, PyNone] [] =
     Some ([PyDict (segment_source_info_items test_source), PyDict []], ''bad source'')"
proof -
  have i0: "(0::nat) < 2" and i1: "(1::nat) < 2" and i2: "\<not> (2::nat) < 2" by simp_all
  have w0: "(word_of_nat 0 :: uint32) = 0" and w1: "(word_of_nat 1 :: uint32) = 1" by simp_all
  have s0: "Suc 0 = 1" by simp
  have at2: "segment_source_loop test_API test_NsLibrary 0 3 2 2
          [PyDict (segment_source_info_items test_source), PyDict []] ''bad source'' =
        Some ([PyDict (segment_source_info_items test_source), PyDict []], ''bad source'')"
    by (subst segment_source_loop.simps) (simp only: i2 if_False)
  have at1: "segment_source_loop test_API test_NsLibrary 0 3 2 1
          [PyDict (segment_source_info_items test_source), PyNone] [] =
        Some ([PyDict (segment_source_info_items test_source), PyDict []], ''bad source'')"
    by (subst segment_source_loop.simps)
       (simp only: i1 if_True w1 test_source_step1 option.case prod.case Suc_1 at2)
  show ?thesis
    by (subst segment_source_loop.simps)
       (simp only: i0 if_True w0 test_source_step0 option.case prod.case s0 at1)
qed

lemma test_segment_info:
  "get_and_add_segment_info test_API test_NsLibrary 0 3 dict [] =
     Some ((0,
            dict_set_item_eat_ref
              (dict_set_item_eat_ref
                 (dict_set_item_eat_ref
                    (dict_set_item_eat_ref
                       (dict_set_item_eat_ref
                          (dict_set_item_eat_ref dict ''SourceCount'' (PyInt 2))
                          ''MinSampleCount'' (PyInt 1))
                       ''MaxSampleCount'' (PyInt 4))
                    ''SampleRate'' (PyFloat 1000))
                 ''Units'' (PyString ''mV''))
              ''SourceInfos''
              (PyList [PyDict (segment_source_info_items test_source), PyDict []])),
           ''bad source'')"
proof -
  have "replicate 2 PyNone = [PyNone, PyNone]" by (simp add: numeral_2_eq_2)
  then have loop: "segment_source_loop test_API test_NsLibrary 0 3 2 0 (replicate 2 PyNone) [] =
              Some ([PyDict (segment_source_info_items test_source), PyDict []], ''bad source'')"
    using test_source_loop by (simp only:)
  have info: "ns_OK test_API = 0" by (simp add: test_API_def)
  show ?thesis
    unfolding get_and_add_segment_info_def test_slots test_GetSegmentInfo_def
    by (simp add: info PyInt_FromLong_def loop)
qed

lemma test_entity_info:
  "do_get_entity_info test_API test_world [PyCObject 2, PyInt 0, PyInt 3] =
     (Return (PyDict
        [(''EntityLabel'', PyString ''seg''), (''EntityType'', PyInt 3), (''ItemCount'', PyInt 1),
         (''SourceCount'', PyInt 2), (''MinSampleCount'', PyInt 1), (''MaxSampleCount'', PyInt 4),
         (''SampleRate'', PyFloat 1000), (''Units'', PyString ''mV''),
         (''SourceInfos'', PyList [PyDict (segment_source_info_items test_source), PyDict []])]),
      \<lparr>native = ''bad source'', heap = heap test_world\<rparr>)"
proof -
  have sw: "entity_info_switch test_API test_NsLibrary 0 3 3 0 dict [] =
              get_and_add_segment_info test_API test_NsLibrary 0 3 dict []" for dict
    by (simp add: entity_info_switch_def test_API_def)
  have ok: "check_result_is_error test_API 0 test_NsLibrary s = Some (None, s)" for s
    by (simp add: check_result_is_error_def test_API_def)
  have w: "test_world\<lparr>native := ''bad source''\<rparr> =
             \<lparr>native = ''bad source'', heap = heap test_world\<rparr>"
    by (simp add: test_world_def)
  show ?thesis
    by (simp add: do_get_entity_info_def PyCObject_Check_def PyInt_Check_def
        PyInt_AsUnsignedLongMask_def PyCObject_AsVoidPtr_def test_lib_at test_slots test_native
        test_GetEntityInfo_def ok sw test_segment_info dict_set_item_eat_ref_def
        PyInt_FromLong_def w)
qed


lemma test_API_ok: "ns_API_ok test_API"
  by (simp add: ns_API_ok_def test_API_def)

lemma test_entity_call:
  "test_GetEntityInfo (word_of_int 0) (word_of_int 3) (native test_world) =
     ((ns_OK test_API, \<lparr> szEntityLabel = ''seg'', dwEntityType = 3, dwItemCount = 1 \<rparr>), [])"
  by (simp add: test_GetEntityInfo_def test_API_def test_native)

lemma test_entity_type:
  "dwEntityType \<lparr> szEntityLabel = ''seg'', dwEntityType = 3, dwItemCount = 1 \<rparr> =
     ns_ENTITY_SEGMENT test_API"
  by (simp add: test_API_def)

lemma test_segment_call:
  "test_GetSegmentInfo (word_of_int 0) (word_of_int 3) [] =
     ((ns_OK test_API,
       \<lparr> dwSourceCount = 2, dwMinSampleCount = 1, dwMaxSampleCount = 4,
         dSampleRate = 1000, szUnits = ''mV'' \<rparr>), [])"
  by (simp add: test_GetSegmentInfo_def test_API_def)

text \<open>
  Claim C3, where the C text departs from it. For a Segment entity whose entity info and
  segment info calls report \<^verbatim>\<open>ns_OK\<close>, a source \<open>j\<close> below the source count whose
  source-info call fails (in whatever state it is made) does not make the query fail:
  \<^verbatim>\<open>do_get_entity_info\<close> returns the dict, whose \<^verbatim>\<open>SourceInfos\<close> list holds the empty dict at
  position \<open>j\<close>. The loop of \<^verbatim>\<open>get_and_add_segment_info\<close> drops the status its helper
  returns. The evaluation after it is the failing input: on the test double the second
  source cannot be described, and the query returns the dict with an empty second entry.
\<close>

theorem segment_info_ignores_source_failure:
  assumes "ns_API_ok K"
    and "NsLibrary_at w a = Some l"
    and "GetEntityInfo l = Some (NS_GETENTITYINFO f1)"
    and "f1 (word_of_int fi) (word_of_int ei) (native w) = ((ns_OK K, einfo), s1)"
    and "dwEntityType einfo = ns_ENTITY_SEGMENT K"
    and "GetSegmentInfo l = Some (NS_GETSEGMENTINFO f2)"
    and "f2 (word_of_int fi) (word_of_int ei) s1 = ((ns_OK K, sinfo), s2)"
    and "GetSegmentSourceInfo l = Some (NS_GETSEGMENTSOURCEINFO f3)"
    and "j < unat (dwSourceCount sinfo)"
    and "\<forall>s. fst (fst (f3 (word_of_int fi) (word_of_int ei) (word_of_nat j) s)) \<noteq> ns_OK K"
  shows "\<exists>d L w'.
           do_get_entity_info K w [PyCObject a, PyInt fi, PyInt ei] = (Return (PyDict d), w') \<and>
           map_of d ''SourceInfos'' = Some (PyList L) \<and>
           j < length L \<and> L ! j = PyDict []"
proof -
  obtain d L w' where r:
    "do_get_entity_info K w [PyCObject a, PyInt fi, PyInt ei] = (Return (PyDict d), w')"
    "map_of d ''SourceInfos'' = Some (PyList L)"
    "length L = unat (dwSourceCount sinfo)"
    "\<forall>j<length L. L ! j = (if fst (fst (f3 (word_of_int fi) (word_of_int ei) (word_of_nat j)
                                  (source_call_state f3 (word_of_int fi) (word_of_int ei) j s2))) \<noteq> ns_OK K
                   then PyDict []
                   else PyDict (fold (\<lambda>(string, item) d. dict_set_item_eat_ref d string item)
                                  (segment_source_info_items
                                     (snd (fst (f3 (word_of_int fi) (word_of_int ei) (word_of_nat j)
                                                  (source_call_state f3 (word_of_int fi) (word_of_int ei) j s2))))) []))"
    using do_get_entity_info_segment [OF assms(1-8)] by blast
  have j: "j < length L" using assms(9) r(3) by simp
  then have "L ! j = (if fst (fst (f3 (word_of_int fi) (word_of_int ei) (word_of_nat j)
                                  (source_call_state f3 (word_of_int fi) (word_of_int ei) j s2))) \<noteq> ns_OK K
                   then PyDict []
                   else PyDict (fold (\<lambda>(string, item) d. dict_set_item_eat_ref d string item)
                                  (segment_source_info_items
                                     (snd (fst (f3 (word_of_int fi) (word_of_int ei) (word_of_nat j)
                                                  (source_call_state f3 (word_of_int fi) (word_of_int ei) j s2))))) []))"
    using r(4) by blast
  then have "L ! j = PyDict []"
    using assms(10) by simp
  then show ?thesis using r(1,2) j by blast
qed

theorem segment_info_ignores_source_failure_witness:
  "ns_API_ok test_API \<and>
   (1::nat) < unat (2 :: uint32) \<and>
   (\<forall>s. fst (fst (test_GetSegmentSourceInfo 0 3 1 s)) \<noteq> ns_OK test_API) \<and>
   do_get_entity_info test_API test_world [PyCObject 2, PyInt 0, PyInt 3] =
     (Return (PyDict
        [(''EntityLabel'', PyString ''seg''), (''EntityType'', PyInt 3), (''ItemCount'', PyInt 1),
         (''SourceCount'', PyInt 2), (''MinSampleCount'', PyInt 1), (''MaxSampleCount'', PyInt 4),
         (''SampleRate'', PyFloat 1000), (''Units'', PyString ''mV''),
         (''SourceInfos'', PyList [PyDict (segment_source_info_items test_source), PyDict []])]),
      \<lparr>native = ''bad source'', heap = heap test_world\<rparr>)"
proof -
  have j: "(1::nat) < unat (dwSourceCount \<lparr> dwSourceCount = 2, dwMinSampleCount = 1,
             dwMaxSampleCount = 4, dSampleRate = 1000, szUnits = ''mV'' \<rparr>)"
    by simp
  have fails: "\<forall>s. fst (fst (test_GetSegmentSourceInfo (word_of_int 0) (word_of_int 3)
                                (word_of_nat 1) s)) \<noteq> ns_OK test_API"
    by (simp add: test_GetSegmentSourceInfo_def test_API_def)
  show ?thesis
    using segment_info_ignores_source_failure
            [OF test_API_ok test_lib_at test_slots(6) test_entity_call test_entity_type
                test_slots(7) test_segment_call test_slots(8) j fails]
      fails test_API_ok
    by (simp add: test_entity_info)
qed

text \<open>
  Claim C5, where the C text departs from it. For a Segment entity whose entity info and
  segment info calls report \<^verbatim>\<open>ns_OK\<close>, \<^verbatim>\<open>do_get_entity_info\<close> returns a dict whose
  \<^verbatim>\<open>SourceCount\<close> is the count the vendor reported and whose \<^verbatim>\<open>SourceInfos\<close> list has exactly
  that many elements. The source-info calls are made for the sources in order. Where the call
  for source \<open>j\<close> reported \<^verbatim>\<open>ns_OK\<close>, the element at position \<open>j\<close> is the descriptor with the
  fifteen fields of the record that call returned. Where it reported anything else, the query
  succeeds all the same and the element at position \<open>j\<close> is the empty dict, not a descriptor.
  The evaluation after it is the failing input, the one of claim C3.
\<close>

theorem segment_source_infos_in_order:
  assumes "ns_API_ok K"
    and "NsLibrary_at w a = Some l"
    and "GetEntityInfo l = Some (NS_GETENTITYINFO f1)"
    and "f1 (word_of_int fi) (word_of_int ei) (native w) = ((ns_OK K, einfo), s1)"
    and "dwEntityType einfo = ns_ENTITY_SEGMENT K"
    and "GetSegmentInfo l = Some (NS_GETSEGMENTINFO f2)"
    and "f2 (word_of_int fi) (word_of_int ei) s1 = ((ns_OK K, sinfo), s2)"
    and "GetSegmentSourceInfo l = Some (NS_GETSEGMENTSOURCEINFO f3)"
  shows "\<exists>d L w'.
           do_get_entity_info K w [PyCObject a, PyInt fi, PyInt ei] = (Return (PyDict d), w') \<and>
           map_of d ''SourceCount'' = Some (PyInt (uint (dwSourceCount sinfo))) \<and>
           map_of d ''SourceInfos'' = Some (PyList L) \<and>
           length L = unat (dwSourceCount sinfo) \<and>
           (\<forall>j<length L. \<forall>res info sj.
              f3 (word_of_int fi) (word_of_int ei) (word_of_nat j)
                 (source_call_state f3 (word_of_int fi) (word_of_int ei) j s2) = ((res, info), sj) \<longrightarrow>
              (res = ns_OK K \<longrightarrow>
                 L ! j = PyDict
                   [(''MinVal'', PyFloat (dMinVal info)),
                    (''MaxVal'', PyFloat (dMaxVal info)),
                    (''SubSampleShift'', PyFloat (dSubSampleShift info)),
                    (''Resolution'', PyFloat (dResolution info)),
                    (''LocationX'', PyFloat (dLocationX info)),
                    (''LocationY'', PyFloat (dLocationY info)),
                    (''LocationZ'', PyFloat (dLocationZ info)),
                    (''LocationUser'', PyFloat (dLocationUser info)),
                    (''HighFreqCorner'', PyFloat (dHighFreqCorner info)),
                    (''HighFreqOrder'', PyInt (uint (dwHighFreqOrder info))),
                    (''HighFilterType'', PyString (szHighFilterType info)),
                    (''LowFreqCorner'', PyFloat (dLowFreqCorner info)),
                    (''LowFreqOrder'', PyInt (uint (dwLowFreqOrder info))),
                    (''LowFilterType'', PyString (szLowFilterType info)),
                    (''ProbeInfo'', PyString (ns_SEGSOURCEINFO.szProbeInfo info))]) \<and>
              (res \<noteq> ns_OK K \<longrightarrow> L ! j = PyDict []))"
proof -
  obtain d L w' where r:
    "do_get_entity_info K w [PyCObject a, PyInt fi, PyInt ei] = (Return (PyDict d), w')"
    "map_of d ''SourceCount'' = Some (PyInt (uint (dwSourceCount sinfo)))"
    "map_of d ''SourceInfos'' = Some (PyList L)"
    "length L = unat (dwSourceCount sinfo)"
    "\<forall>j<length L. L ! j = (if fst (fst (f3 (word_of_int fi) (word_of_int ei) (word_of_nat j)
                                  (source_call_state f3 (word_of_int fi) (word_of_int ei) j s2))) \<noteq> ns_OK K
                   then PyDict []
                   else PyDict (fold (\<lambda>(string, item) d. dict_set_item_eat_ref d string item)
                                  (segment_source_info_items
                                     (snd (fst (f3 (word_of_int fi) (word_of_int ei) (word_of_nat j)
                                                  (source_call_state f3 (word_of_int fi) (word_of_int ei) j s2))))) []))"
    using do_get_entity_info_segment [OF assms] by blast
  have "\<forall>j<length L. \<forall>res info sj.
          f3 (word_of_int fi) (word_of_int ei) (word_of_nat j)
             (source_call_state f3 (word_of_int fi) (word_of_int ei) j s2) = ((res, info), sj) \<longrightarrow>
          (res = ns_OK K \<longrightarrow>
             L ! j = PyDict (fold (\<lambda>(string, item) d. dict_set_item_eat_ref d string item)
                               (segment_source_info_items info) [])) \<and>
          (res \<noteq> ns_OK K \<longrightarrow> L ! j = PyDict [])"
    using r(5) by auto
  then show ?thesis
    using r(1,2,3,4) unfolding segment_source_dict by blast
qed

theorem segment_source_infos_in_order_witness:
  "ns_API_ok test_API \<and>
   NsLibrary_at test_world 2 = Some test_NsLibrary \<and>
   test_GetSegmentSourceInfo 0 3 0 (source_call_state test_GetSegmentSourceInfo 0 3 0 []) =
     ((ns_OK test_API, test_source), []) \<and>
   test_GetSegmentSourceInfo 0 3 1 (source_call_state test_GetSegmentSourceInfo 0 3 1 []) =
     ((- 1, test_source), ''bad source'') \<and>
   fst (do_get_entity_info test_API test_world [PyCObject 2, PyInt 0, PyInt 3]) =
     Return (PyDict
        [(''EntityLabel'', PyString ''seg''), (''EntityType'', PyInt 3), (''ItemCount'', PyInt 1),
         (''SourceCount'', PyInt 2), (''MinSampleCount'', PyInt 1), (''MaxSampleCount'', PyInt 4),
         (''SampleRate'', PyFloat 1000), (''Units'', PyString ''mV''),
         (''SourceInfos'',
          PyList [PyDict
                    [(''MinVal'', PyFloat (- 1)), (''MaxVal'', PyFloat 1),
                     (''SubSampleShift'', PyFloat 0), (''Resolution'', PyFloat (1 / 8)),
                     (''LocationX'', PyFloat 0), (''LocationY'', PyFloat 0),
                     (''LocationZ'', PyFloat 0), (''LocationUser'', PyFloat 0),
                     (''HighFreqCorner'', PyFloat 0), (''HighFreqOrder'', PyInt 0),
                     (''HighFilterType'', PyString []), (''LowFreqCorner'', PyFloat 0),
                     (''LowFreqOrder'', PyInt 0), (''LowFilterType'', PyString []),
                     (''ProbeInfo'', PyString [])],
                  PyDict []])])"
proof -
  have c0: "test_GetSegmentSourceInfo 0 3 0 (source_call_state test_GetSegmentSourceInfo 0 3 0 []) =
              ((ns_OK test_API, test_source), [])"
    by (simp add: test_GetSegmentSourceInfo_def test_API_def)
  have c1: "test_GetSegmentSourceInfo 0 3 1 (source_call_state test_GetSegmentSourceInfo 0 3 1 []) =
              ((- 1, test_source), ''bad source'')"
    by (simp add: test_GetSegmentSourceInfo_def)
  have items: "segment_source_info_items test_source =
                 [(''MinVal'', PyFloat (- 1)), (''MaxVal'', PyFloat 1),
                  (''SubSampleShift'', PyFloat 0), (''Resolution'', PyFloat (1 / 8)),
                  (''LocationX'', PyFloat 0), (''LocationY'', PyFloat 0),
                  (''LocationZ'', PyFloat 0), (''LocationUser'', PyFloat 0),
                  (''HighFreqCorner'', PyFloat 0), (''HighFreqOrder'', PyInt 0),
                  (''HighFilterType'', PyString []), (''LowFreqCorner'', PyFloat 0),
                  (''LowFreqOrder'', PyInt 0), (''LowFilterType'', PyString []),
                  (''ProbeInfo'', PyString [])]"
    by (simp add: segment_source_info_items_def test_source_def PyInt_FromLong_def)
  show ?thesis
    using segment_source_infos_in_order
            [OF test_API_ok test_lib_at test_slots(6) test_entity_call test_entity_type
                test_slots(7) test_segment_call test_slots(8)]
      test_API_ok test_lib_at c0 c1
    by (simp add: test_entity_info items)
qed

end
